theory Spec2Isabelle
  imports Main "HOL-Library.Sublist"
begin

section \<open>The epoll web server of \<^verbatim>\<open>src/examples/high_perf_webserver.c\<close>\<close>

text \<open>
  The embedding follows the C file function by function. A \<^verbatim>\<open>connection_t *\<close> is the
  index of a slot of the global \<^verbatim>\<open>connections\<close> array (\<open>None\<close> is the null pointer), a
  \<^verbatim>\<open>char\<close> array is a list of bytes, a heap buffer (\<^verbatim>\<open>char *response\<close>) is an optional
  byte list, and every answer of the operating system (what \<^verbatim>\<open>recv\<close>, \<^verbatim>\<open>send\<close>,
  \<^verbatim>\<open>epoll_ctl\<close>, \<^verbatim>\<open>fcntl\<close>, \<^verbatim>\<open>open\<close>, \<^verbatim>\<open>read\<close> and \<^verbatim>\<open>malloc\<close> return) is a field
  of an environment record, so that each branch of the source is a branch of the model.
  \<^verbatim>\<open>size_t\<close> counters are natural numbers; the one subtraction of the source that could
  wrap is written with its wrap-around. \<^verbatim>\<open>strdup\<close> is taken to succeed (the source never
  tests its result).
\<close>

subsection \<open>Constants\<close>

definition BUFFER_SIZE :: nat where
  "BUFFER_SIZE = 8192"

definition MAX_CONNECTIONS :: nat where
  "MAX_CONNECTIONS = 10000"

definition WEB_ROOT :: string where
  "WEB_ROOT = ''./www''"

definition NUL :: char where
  "NUL = CHR 0x00"

definition CRLF :: string where
  "CRLF = [CHR 0x0D, CHR 0x0A]"

subsection \<open>The C string functions the server calls\<close>

text \<open>The string a \<^verbatim>\<open>char *\<close> denotes: the bytes before the first NUL of the memory it
  points to. The arrays the server searches always end in NUL (an invariant proved
  below), so the C functions never read past the list.\<close>

definition c_str :: "char list \<Rightarrow> string" where
  "c_str mem = takeWhile (\<lambda>c. c \<noteq> NUL) mem"

text \<open>\<^verbatim>\<open>strstr\<close>: the offset of the first occurrence of the needle, \<open>None\<close> for NULL.\<close>

fun strstr :: "string \<Rightarrow> string \<Rightarrow> nat option" where
  "strstr [] needle = (if needle = [] then Some 0 else None)"
| "strstr (h # hs) needle =
     (if prefix needle (h # hs) then Some 0 else map_option Suc (strstr hs needle))"

text \<open>\<^verbatim>\<open>strncmp(a, b, n) == 0\<close> on two C strings.\<close>

definition strncmp_eq :: "string \<Rightarrow> string \<Rightarrow> nat \<Rightarrow> bool" where
  "strncmp_eq a b n = (take n a = take n b)"

text \<open>\<^verbatim>\<open>isspace\<close> in the C locale.\<close>

definition isspace :: "char \<Rightarrow> bool" where
  "isspace c = (c \<in> {CHR '' '', CHR 0x09, CHR 0x0A, CHR 0x0B, CHR 0x0C, CHR 0x0D})"

text \<open>\<^verbatim>\<open>sscanf(text, "GET %s", path)\<close> into a zeroed \<^verbatim>\<open>path\<close>: the literal must match, white
  space is skipped, and the run of non-space characters that follows is stored; when
  nothing is stored the path stays empty.\<close>

definition sscanf_GET :: "string \<Rightarrow> string" where
  "sscanf_GET text =
     (if prefix ''GET'' text
      then takeWhile (\<lambda>c. \<not> isspace c) (dropWhile isspace (drop 3 text))
      else [])"

text \<open>\<^verbatim>\<open>%ld\<close> of a non-negative number.\<close>

definition digit_char :: "nat \<Rightarrow> char" where
  "digit_char d = ''0123456789'' ! d"

function decimal :: "nat \<Rightarrow> string" where
  "decimal n = (if n < 10 then [digit_char n] else decimal (n div 10) @ [digit_char (n mod 10)])"
  by pat_completeness auto
termination
  by (relation "measure id") auto

text \<open>The subtraction of two \<^verbatim>\<open>size_t\<close> values (64 bits).\<close>

definition size_sub :: "nat \<Rightarrow> nat \<Rightarrow> nat" where
  "size_sub a b = (if b \<le> a then a - b else 2 ^ 64 - (b - a))"

subsection \<open>Connections and the pool\<close>

record connection_t =
  fd :: int
  buffer :: "char list"
  buffer_used :: nat
  response_sent :: nat
  response :: "string option"
  response_size :: nat
  keep_alive :: bool

text \<open>What \<^verbatim>\<open>send\<close> answers: the number of bytes taken, or \<^verbatim>\<open>-1\<close> with \<^verbatim>\<open>EAGAIN\<close>, or \<^verbatim>\<open>-1\<close>
  with another error. The system calls whose effect is visible from outside the process
  are recorded: \<^verbatim>\<open>close\<close> with its descriptor, \<^verbatim>\<open>send\<close> with its descriptor, the bytes
  offered and the answer.\<close>

datatype send_result = Sent nat | Send_EAGAIN | Send_error

datatype syscall = Sys_close int | Sys_send int string send_result

text \<open>The \<^verbatim>\<open>events\<close> word the server registers for a client socket: \<^verbatim>\<open>EPOLLIN | EPOLLET\<close> or
  \<^verbatim>\<open>EPOLLOUT | EPOLLET\<close>.\<close>

datatype interest = EPOLLIN_ET | EPOLLOUT_ET

text \<open>The flags of a delivered event.\<close>

datatype event_flag = EPOLLIN | EPOLLOUT | EPOLLERR | EPOLLHUP

text \<open>The process state: the global pool, \<^verbatim>\<open>connection_count\<close> of \<^verbatim>\<open>main\<close>, the interest set
  of the epoll instance, and the system calls issued so far.\<close>

record server =
  connections :: "connection_t list"
  connection_count :: int
  epoll :: "int \<rightharpoonup> interest"
  syslog :: "syscall list"

datatype recv_result = Recv string | Recv_EAGAIN | Recv_error

record web_file =
  st_size :: nat
  contents :: "string option"

text \<open>What the operating system answers during one event: the bytes the socket has
  (\<^verbatim>\<open>recv\<close> copies at most the length asked for; no bytes is the peer's close), the number
  of bytes the socket takes (\<^verbatim>\<open>send\<close> takes at most the length offered), whether
  \<^verbatim>\<open>epoll_ctl\<close>, \<^verbatim>\<open>fcntl\<close> and \<^verbatim>\<open>malloc\<close> succeed, and the files under the web root
  (\<^verbatim>\<open>contents\<close> is what \<^verbatim>\<open>read\<close> delivers, \<open>None\<close> when it fails).\<close>

record env =
  recv_res :: recv_result
  send_res :: send_result
  epoll_ctl_ok :: bool
  nonblock_ok :: bool
  malloc_ok :: bool
  open_file :: "string \<Rightarrow> web_file option"

definition unused_connection :: connection_t where
  "unused_connection =
     \<lparr>fd = - 1, buffer = replicate BUFFER_SIZE NUL, buffer_used = 0, response_sent = 0,
      response = None, response_size = 0, keep_alive = False\<rparr>"

definition init_connections :: "connection_t list" where
  "init_connections = replicate MAX_CONNECTIONS unused_connection"

definition sys_close :: "int \<Rightarrow> server \<Rightarrow> server" where
  "sys_close d s = s\<lparr>epoll := (epoll s)(d := None), syslog := syslog s @ [Sys_close d]\<rparr>"

definition sys_send :: "env \<Rightarrow> int \<Rightarrow> string \<Rightarrow> server \<Rightarrow> send_result \<times> server" where
  "sys_send e d bytes s =
     (let r = (case send_res e of Sent k \<Rightarrow> Sent (min k (length bytes)) | r \<Rightarrow> r)
      in (r, s\<lparr>syslog := syslog s @ [Sys_send d bytes r]\<rparr>))"

text \<open>\<^verbatim>\<open>epoll_ctl\<close> with \<^verbatim>\<open>EPOLL_CTL_ADD\<close> or \<^verbatim>\<open>EPOLL_CTL_MOD\<close>: \<open>None\<close> is the result \<^verbatim>\<open>-1\<close>.\<close>

definition epoll_ctl :: "env \<Rightarrow> int \<Rightarrow> interest \<Rightarrow> server \<Rightarrow> server option" where
  "epoll_ctl e d ev s = (if epoll_ctl_ok e then Some (s\<lparr>epoll := (epoll s)(d \<mapsto> ev)\<rparr>) else None)"

fun find_unused :: "connection_t list \<Rightarrow> nat option" where
  "find_unused [] = None"
| "find_unused (c # cs) = (if fd c < 0 then Some 0 else map_option Suc (find_unused cs))"

definition add_connection :: "int \<Rightarrow> server \<Rightarrow> nat option \<times> server" where
  "add_connection d s =
     (case find_unused (connections s) of
        None \<Rightarrow> (None, s)
      | Some i \<Rightarrow>
          (Some i,
           s\<lparr>connections := (connections s)
                [i := (connections s ! i)\<lparr>fd := d, buffer_used := 0, response := None,
                                          response_size := 0, response_sent := 0,
                                          keep_alive := False\<rparr>]\<rparr>))"

definition remove_connection :: "nat option \<Rightarrow> server \<Rightarrow> server" where
  "remove_connection p s =
     (case p of
        None \<Rightarrow> s
      | Some i \<Rightarrow>
          let conn = connections s ! i;
              s1 = (if fd conn \<ge> 0 then sys_close (fd conn) s else s)
          in s1\<lparr>connections := (connections s1)
                  [i := conn\<lparr>fd := - 1, buffer_used := 0, response := None,
                             response_size := 0, response_sent := 0, keep_alive := False\<rparr>]\<rparr>)"

subsection \<open>The literal responses\<close>

definition response_501 :: string where
  "response_501 =
     ''HTTP/1.1 501 Not Implemented'' @ CRLF @
     ''Content-Length: 28'' @ CRLF @
     ''Connection: close'' @ CRLF @
     CRLF @
     ''Only GET requests supported''"

definition response_404 :: string where
  "response_404 =
     ''HTTP/1.1 404 Not Found'' @ CRLF @
     ''Content-Length: 14'' @ CRLF @
     ''Connection: close'' @ CRLF @
     CRLF @
     ''File not found''"

definition response_500 :: string where
  "response_500 =
     ''HTTP/1.1 500 Internal Server Error'' @ CRLF @
     ''Content-Length: 21'' @ CRLF @
     ''Connection: close'' @ CRLF @
     CRLF @
     ''Internal Server Error''"

definition response_413 :: string where
  "response_413 =
     ''HTTP/1.1 413 Request Entity Too Large'' @ CRLF @
     ''Content-Length: 24'' @ CRLF @
     ''Connection: close'' @ CRLF @
     CRLF @
     ''Request is too large''"

definition response_503 :: string where
  "response_503 =
     ''HTTP/1.1 503 Service Unavailable'' @ CRLF @
     ''Content-Length: 21'' @ CRLF @
     ''Connection: close'' @ CRLF @
     CRLF @
     ''Server is overloaded''"

text \<open>The four assignments every error path makes: \<^verbatim>\<open>response = strdup(...)\<close>,
  \<^verbatim>\<open>response_size = strlen(...)\<close>, \<^verbatim>\<open>response_sent = 0\<close>, \<^verbatim>\<open>keep_alive = 0\<close>.\<close>

definition error_response :: "string \<Rightarrow> connection_t \<Rightarrow> connection_t" where
  "error_response r conn =
     conn\<lparr>response := Some r, response_size := length r, response_sent := 0,
          keep_alive := False\<rparr>"

subsection \<open>\<^verbatim>\<open>process_http_request\<close>\<close>

text \<open>Lines 177 to 193: the chain of \<^verbatim>\<open>strstr(path, ...)\<close> tests, in the source's order.\<close>

definition content_type_of :: "string \<Rightarrow> string" where
  "content_type_of path =
     (if strstr path ''.html'' \<noteq> None \<or> strstr path ''.htm'' \<noteq> None then ''text/html''
      else if strstr path ''.css'' \<noteq> None then ''text/css''
      else if strstr path ''.js'' \<noteq> None then ''application/javascript''
      else if strstr path ''.jpg'' \<noteq> None \<or> strstr path ''.jpeg'' \<noteq> None then ''image/jpeg''
      else if strstr path ''.png'' \<noteq> None then ''image/png''
      else if strstr path ''.gif'' \<noteq> None then ''image/gif''
      else if strstr path ''.txt'' \<noteq> None then ''text/plain''
      else ''application/octet-stream'')"

text \<open>Lines 196 to 204: the header \<^verbatim>\<open>snprintf\<close> writes. It is far shorter than the
  \<^verbatim>\<open>BUFFER_SIZE\<close> bytes of \<^verbatim>\<open>header\<close>, so nothing is cut.\<close>

definition http_header :: "string \<Rightarrow> nat \<Rightarrow> bool \<Rightarrow> string" where
  "http_header content_type file_size ka =
     ''HTTP/1.1 200 OK'' @ CRLF @
     ''Content-Type: '' @ content_type @ CRLF @
     ''Content-Length: '' @ decimal file_size @ CRLF @
     ''Connection: '' @ (if ka then ''keep-alive'' else ''close'') @ CRLF @
     CRLF"

text \<open>Lines 139 to 149: the path, the keep-alive flag, the default document.\<close>

definition parse_request :: "connection_t \<Rightarrow> string \<times> connection_t" where
  "parse_request conn =
     (let text = c_str (buffer conn);
          path = sscanf_GET text;
          conn1 = conn\<lparr>keep_alive := (strstr text ''Connection: keep-alive'' \<noteq> None)\<rparr>
      in (if path = ''/'' then ''/index.html'' else path, conn1))"

text \<open>Lines 151 to 246: open the file and build the response.\<close>

definition build_response :: "env \<Rightarrow> string \<Rightarrow> connection_t \<Rightarrow> connection_t" where
  "build_response e path conn =
     (let full_path = take (BUFFER_SIZE - 1) (WEB_ROOT @ path) in
      case open_file e full_path of
        None \<Rightarrow> error_response response_404 conn
      | Some f \<Rightarrow>
          let file_size = st_size f;
              header = http_header (content_type_of path) file_size (keep_alive conn);
              header_len = length header;
              conn1 = conn\<lparr>response_size := header_len + file_size\<rparr>
          in if \<not> malloc_ok e then error_response response_500 conn1
             else
               (case contents f of
                  None \<Rightarrow> error_response response_500 conn1
                | Some bytes \<Rightarrow>
                    let got = take file_size bytes in
                    if length got \<noteq> file_size then error_response response_500 conn1
                    else conn1\<lparr>response := Some (header @ got), response_sent := 0\<rparr>))"

definition process_http_request :: "env \<Rightarrow> connection_t \<Rightarrow> connection_t" where
  "process_http_request e conn0 =
     (let conn = conn0\<lparr>buffer := (buffer conn0)[buffer_used conn0 := NUL]\<rparr> in
      if \<not> strncmp_eq (c_str (buffer conn)) ''GET '' 4 then error_response response_501 conn
      else case parse_request conn of (path, conn1) \<Rightarrow> build_response e path conn1)"

subsection \<open>\<^verbatim>\<open>send_response\<close>\<close>

definition send_response :: "env \<Rightarrow> nat option \<Rightarrow> server \<Rightarrow> int \<times> server" where
  "send_response e p s =
     (case p of
        None \<Rightarrow> (- 1, s)
      | Some i \<Rightarrow>
          let conn = connections s ! i in
          (case response conn of
            None \<Rightarrow> (- 1, s)
          | Some resp \<Rightarrow>
              let remaining = size_sub (response_size conn) (response_sent conn) in
              (case sys_send e (fd conn) (take remaining (drop (response_sent conn) resp)) s of
                (Send_EAGAIN, s1) \<Rightarrow> (0, s1)
              | (Send_error, s1) \<Rightarrow> (- 1, s1)
              | (Sent bytes_sent, s1) \<Rightarrow>
                  let conn1 = conn\<lparr>response_sent := response_sent conn + bytes_sent\<rparr> in
                  if response_sent conn1 \<ge> response_size conn1 then
                    let conn2 = conn1\<lparr>response := None, response_size := 0\<rparr> in
                    if keep_alive conn2 then
                      let conn3 = conn2\<lparr>buffer_used := 0\<rparr>;
                          s2 = s1\<lparr>connections := (connections s1)[i := conn3]\<rparr>
                      in (case epoll_ctl e (fd conn3) EPOLLIN_ET s2 of
                            None \<Rightarrow> (- 1, s2)
                          | Some s3 \<Rightarrow> (0, s3))
                    else (- 1, s1\<lparr>connections := (connections s1)[i := conn2]\<rparr>)
                  else (0, s1\<lparr>connections := (connections s1)[i := conn1]\<rparr>))))"

subsection \<open>The event loop of \<^verbatim>\<open>main\<close>\<close>

text \<open>\<^verbatim>\<open>remove_connection(conn); connection_count--;\<close>\<close>

definition drop_connection :: "nat \<Rightarrow> server \<Rightarrow> server" where
  "drop_connection i s =
     (let s1 = remove_connection (Some i) s in s1\<lparr>connection_count := connection_count s1 - 1\<rparr>)"

text \<open>Lines 547 to 551, reached by every path of the client branch that does not
  \<^verbatim>\<open>continue\<close>.\<close>

definition check_errors :: "event_flag set \<Rightarrow> nat \<Rightarrow> server \<Rightarrow> server" where
  "check_errors flags i s =
     (if EPOLLERR \<in> flags \<or> EPOLLHUP \<in> flags then drop_connection i s else s)"

text \<open>Lines 505 to 514 and 528 to 537: register for writing; on failure release and
  \<^verbatim>\<open>continue\<close>.\<close>

definition change_to_write :: "env \<Rightarrow> event_flag set \<Rightarrow> nat \<Rightarrow> server \<Rightarrow> server" where
  "change_to_write e flags i s =
     (case epoll_ctl e (fd (connections s ! i)) EPOLLOUT_ET s of
        None \<Rightarrow> drop_connection i s
      | Some s1 \<Rightarrow> check_errors flags i s1)"

text \<open>\<^verbatim>\<open>recv(fd, buffer + buffer_used, len, 0)\<close> storing \<open>data\<close>.\<close>

definition store_received :: "string \<Rightarrow> connection_t \<Rightarrow> connection_t" where
  "store_received data conn =
     conn\<lparr>buffer := take (buffer_used conn) (buffer conn) @ data @
                     drop (buffer_used conn + length data) (buffer conn),
          buffer_used := buffer_used conn + length data\<rparr>"

text \<open>Lines 466 to 551: one event whose \<^verbatim>\<open>data.ptr\<close> is the slot \<open>i\<close>.\<close>

definition client_event :: "env \<Rightarrow> event_flag set \<Rightarrow> nat \<Rightarrow> server \<Rightarrow> server" where
  "client_event e flags i s =
     (let conn = connections s ! i in
      if EPOLLIN \<in> flags then
        (if response conn \<noteq> None then s
         else
           case recv_res e of
             Recv_EAGAIN \<Rightarrow> s
           | Recv_error \<Rightarrow> drop_connection i s
           | Recv avail \<Rightarrow>
               let data = take (BUFFER_SIZE - buffer_used conn - 1) avail in
               if data = [] then drop_connection i s
               else
                 let conn1 = store_received data conn in
                 if strstr (c_str (buffer conn1)) (CRLF @ CRLF) \<noteq> None then
                   change_to_write e flags i
                     (s\<lparr>connections := (connections s)[i := process_http_request e conn1]\<rparr>)
                 else if buffer_used conn1 \<ge> BUFFER_SIZE - 1 then
                   change_to_write e flags i
                     (s\<lparr>connections := (connections s)[i := error_response response_413 conn1]\<rparr>)
                 else check_errors flags i (s\<lparr>connections := (connections s)[i := conn1]\<rparr>))
      else if EPOLLOUT \<in> flags then
        (case send_response e (Some i) s of
           (r, s1) \<Rightarrow> check_errors flags i (if r < 0 then drop_connection i s1 else s1))
      else check_errors flags i s)"

text \<open>Lines 424 to 463: one descriptor \<^verbatim>\<open>accept\<close> has returned.\<close>

definition accept_client :: "env \<Rightarrow> int \<Rightarrow> server \<Rightarrow> server" where
  "accept_client e client_fd s =
     (if \<not> nonblock_ok e then sys_close client_fd s
      else
        case add_connection client_fd s of
          (None, s1) \<Rightarrow> sys_close client_fd (snd (sys_send e client_fd response_503 s1))
        | (Some i, s1) \<Rightarrow>
            (case epoll_ctl e client_fd EPOLLIN_ET s1 of
               None \<Rightarrow> remove_connection (Some i) s1
             | Some s2 \<Rightarrow> s2\<lparr>connection_count := connection_count s2 + 1\<rparr>))"

text \<open>An event is either on the listening socket, with the connections waiting to be
  accepted (the \<^verbatim>\<open>while (1)\<close> loop accepts them until \<^verbatim>\<open>accept\<close> has none left), or on a
  client socket.\<close>

datatype event = Server_event "(env \<times> int) list" | Client_event env "event_flag set" nat

fun handle_event :: "server \<Rightarrow> event \<Rightarrow> server" where
  "handle_event s (Server_event pending) = foldl (\<lambda>s (e, d). accept_client e d s) s pending"
| "handle_event s (Client_event e flags i) = client_event e flags i s"

text \<open>The state after the loop has handled a sequence of events.\<close>

definition run_events :: "event list \<Rightarrow> server \<Rightarrow> server" where
  "run_events evs s = foldl handle_event s evs"

definition init_server :: server where
  "init_server =
     \<lparr>connections = init_connections, connection_count = 0, epoll = Map.empty, syslog = []\<rparr>"

subsection \<open>Reading the state and the wire\<close>

text \<open>The number of occupied slots of the pool.\<close>

definition occupied :: "server \<Rightarrow> nat" where
  "occupied s = length (filter (\<lambda>c. fd c \<ge> 0) (connections s))"

text \<open>The bytes a descriptor's peer has received: what each \<^verbatim>\<open>send\<close> on it took, in order.\<close>

fun delivered :: "int \<Rightarrow> syscall list \<Rightarrow> string" where
  "delivered d [] = []"
| "delivered d (Sys_send d' bytes (Sent k) # cs) =
     (if d' = d then take k bytes @ delivered d cs else delivered d cs)"
| "delivered d (c # cs) = delivered d cs"

text \<open>A run of write-readiness events on slot \<open>i\<close>, one per answer of the system, and
  the number of bytes \<^verbatim>\<open>send\<close> is ready to take in each.\<close>

definition writable_events :: "env list \<Rightarrow> nat \<Rightarrow> event list" where
  "writable_events es i = map (\<lambda>e. Client_event e {EPOLLOUT} i) es"

definition sent_count :: "env \<Rightarrow> nat" where
  "sent_count e = (case send_res e of Sent k \<Rightarrow> k | _ \<Rightarrow> 0)"

text \<open>The bytes read so far for the current request.\<close>

definition accumulated :: "connection_t \<Rightarrow> string" where
  "accumulated conn = take (buffer_used conn) (buffer conn)"

text \<open>What a client reads in a response: the body after the first blank line, and the
  number after \<^verbatim>\<open>Content-Length: \<close>.\<close>

definition http_body :: "string \<Rightarrow> string option" where
  "http_body r = map_option (\<lambda>i. drop (i + 4) r) (strstr r (CRLF @ CRLF))"

definition isdigit :: "char \<Rightarrow> bool" where
  "isdigit c = (c \<in> set ''0123456789'')"

definition digit_value :: "char \<Rightarrow> nat" where
  "digit_value c = of_char c - 48"

definition declared_length :: "string \<Rightarrow> nat option" where
  "declared_length r =
     map_option
       (\<lambda>i. foldl (\<lambda>n c. 10 * n + digit_value c) 0 (takeWhile isdigit (drop (i + 16) r)))
       (strstr r ''Content-Length: '')"

text \<open>The method token of a request, as the specification uses the word: its first
  white-space delimited word. (The source has no such function; it compares the first
  four bytes with \<^verbatim>\<open>GET \<close>.)\<close>

definition method_token :: "string \<Rightarrow> string" where
  "method_token text = takeWhile (\<lambda>c. \<not> isspace c) text"

text \<open>The suffix table as the specification words it: the label is chosen by the text
  after the last dot of the path.\<close>

definition path_suffix :: "string \<Rightarrow> string" where
  "path_suffix path = rev (takeWhile (\<lambda>c. c \<noteq> CHR ''.'') (rev path))"

definition suffix_table :: "string \<Rightarrow> string" where
  "suffix_table path =
     (if CHR ''.'' \<notin> set path then ''application/octet-stream''
      else if path_suffix path \<in> {''html'', ''htm''} then ''text/html''
      else if path_suffix path = ''css'' then ''text/css''
      else if path_suffix path = ''js'' then ''application/javascript''
      else if path_suffix path \<in> {''jpg'', ''jpeg''} then ''image/jpeg''
      else if path_suffix path = ''png'' then ''image/png''
      else if path_suffix path = ''gif'' then ''image/gif''
      else if path_suffix path = ''txt'' then ''text/plain''
      else ''application/octet-stream'')"

subsection \<open>Invariants\<close>

text \<open>What holds of every slot in every reachable state: the array has \<^verbatim>\<open>BUFFER_SIZE\<close>
  bytes and ends in NUL (so every string function stops inside it), \<^verbatim>\<open>buffer_used\<close>
  leaves room for that byte, and a pending response has \<^verbatim>\<open>response_size\<close> bytes of which
  at most that many are sent.\<close>

definition conn_ok :: "connection_t \<Rightarrow> bool" where
  "conn_ok c =
     (length (buffer c) = BUFFER_SIZE \<and> buffer c ! (BUFFER_SIZE - 1) = NUL \<and>
      buffer_used c < BUFFER_SIZE \<and>
      (case response c of
         None \<Rightarrow> True
       | Some r \<Rightarrow> response_size c = length r \<and> response_sent c \<le> response_size c))"

definition pool_ok :: "server \<Rightarrow> bool" where
  "pool_ok s = (length (connections s) = MAX_CONNECTIONS \<and> list_all conn_ok (connections s))"

text \<open>An event names the listening socket or a slot of the pool.\<close>

definition event_ok :: "event \<Rightarrow> bool" where
  "event_ok ev =
     (case ev of Server_event pending \<Rightarrow> True | Client_event e flags i \<Rightarrow> i < MAX_CONNECTIONS)"

subsection \<open>Concrete states for the examples\<close>

text \<open>An environment in which the web root holds one 37-byte \<^verbatim>\<open>index.html\<close>, and a
  one-slot pool whose connection, on descriptor 5, has the response \<open>r\<close> pending.\<close>

definition demo_env :: env where
  "demo_env =
     \<lparr>recv_res = Recv_EAGAIN, send_res = Send_EAGAIN, epoll_ctl_ok = True, nonblock_ok = True,
      malloc_ok = True,
      open_file = (\<lambda>p. if p = ''./www/index.html''
                        then Some \<lparr>st_size = 37, contents = Some (replicate 37 (CHR ''x''))\<rparr>
                        else None)\<rparr>"

definition demo_pending :: "string \<Rightarrow> bool \<Rightarrow> server" where
  "demo_pending r ka =
     \<lparr>connections =
        [unused_connection\<lparr>fd := 5, response := Some r, response_size := length r,
                           keep_alive := ka\<rparr>],
      connection_count = 1, epoll = [5 \<mapsto> EPOLLOUT_ET], syslog = []\<rparr>"

text \<open>The same pool with the connection idle, registered for reading.\<close>

definition demo_idle :: server where
  "demo_idle =
     \<lparr>connections = [unused_connection\<lparr>fd := 5\<rparr>], connection_count = 1,
      epoll = [5 \<mapsto> EPOLLIN_ET], syslog = []\<rparr>"

text \<open>A run of the loop from the initial state: a client connects and gets descriptor
  5, sends a keep-alive request for \<^verbatim>\<open>/index.html\<close>, takes the whole response, and then
  the first twelve bytes of its next request arrive.\<close>

definition demo_request :: string where
  "demo_request = ''GET /index.html HTTP/1.1'' @ CRLF @ ''Connection: keep-alive'' @ CRLF @ CRLF"

definition demo_events :: "event list" where
  "demo_events =
     [Server_event [(demo_env, 5)],
      Client_event (demo_env\<lparr>recv_res := Recv demo_request\<rparr>) {EPOLLIN} 0,
      Client_event (demo_env\<lparr>send_res := Sent 4096\<rparr>) {EPOLLOUT} 0,
      Client_event (demo_env\<lparr>recv_res := Recv ''GET /index.h''\<rparr>) {EPOLLIN} 0]"

text \<open>A request whose keep-alive marker comes behind a NUL byte.\<close>

definition demo_nul_request :: string where
  "demo_nul_request =
     ''GET /index.html HTTP/1.1'' @ CRLF @ CRLF @ [NUL] @ ''Connection: keep-alive''"

section \<open>Strings, sending and the write scheduler: auxiliary facts\<close>


lemma strstr_sublist: "strstr hay needle \<noteq> None \<longleftrightarrow> sublist needle hay"
  by (induction hay) (auto simp add: sublist_Cons_right)

lemma takeWhile_stop: "\<not> P y \<Longrightarrow> takeWhile P (xs @ y # ys) = takeWhile P xs"
  by (induction xs) auto

lemma c_str_terminated:
  "n < length mem \<Longrightarrow> c_str (mem[n := NUL]) = c_str (take n mem)"
  by (simp add: c_str_def upd_conv_take_nth_drop takeWhile_stop)

lemma c_str_prefix: "prefix (c_str mem) mem"
  by (simp add: c_str_def takeWhile_is_prefix)

lemma c_str_text: "NUL \<notin> set text \<Longrightarrow> c_str text = text"
  by (auto simp add: c_str_def)

lemma c_str_terminated_prefix: "prefix (c_str (mem[n := NUL])) (take n mem)"
proof (cases "n < length mem")
  case True
  then show ?thesis by (simp add: c_str_terminated c_str_prefix)
next
  case False
  then show ?thesis by (simp add: c_str_prefix list_update_beyond)
qed

lemma c_str_terminated_take: "c_str (mem[n := NUL]) = c_str (take n mem)"
proof (cases "n < length mem")
  case True
  then show ?thesis by (rule c_str_terminated)
next
  case False
  then show ?thesis by (simp add: list_update_beyond)
qed

lemma strncmp_eq_GET: "strncmp_eq text ''GET '' 4 \<longleftrightarrow> prefix ''GET '' text"
proof
  assume "strncmp_eq text ''GET '' 4"
  then have "take 4 text = ''GET ''" by (simp add: strncmp_eq_def)
  then show "prefix ''GET '' text" by (metis take_is_prefix)
next
  assume "prefix ''GET '' text"
  then obtain z where "text = ''GET '' @ z" by (auto simp add: prefix_def)
  then show "strncmp_eq text ''GET '' 4" by (simp add: strncmp_eq_def)
qed

lemma method_token_GET: "prefix ''GET '' text \<Longrightarrow> method_token text = ''GET''"
  by (auto simp add: prefix_def method_token_def isspace_def)

lemma process_non_get:
  assumes "method_token (accumulated conn) \<noteq> ''GET''"
  shows "process_http_request e conn =
           error_response response_501
             (conn\<lparr>buffer := (buffer conn)[buffer_used conn := NUL]\<rparr>)"
proof -
  have "\<not> prefix ''GET '' (c_str ((buffer conn)[buffer_used conn := NUL]))"
  proof
    assume "prefix ''GET '' (c_str ((buffer conn)[buffer_used conn := NUL]))"
    then have "prefix ''GET '' (accumulated conn)"
      using c_str_terminated_prefix [of "buffer conn" "buffer_used conn"]
      by (metis accumulated_def prefix_order.trans)
    with assms show False by (simp add: method_token_GET)
  qed
  then show ?thesis
    by (simp add: process_http_request_def strncmp_eq_GET)
qed

lemma size_sub_le: "b \<le> a \<Longrightarrow> size_sub a b = a - b"
  by (simp add: size_sub_def)

lemma send_response_partial:
  assumes "response (connections s ! i) = Some r"
    and "response_size (connections s ! i) = length r"
    and "response_sent (connections s ! i) \<le> length r"
    and "send_res e = Sent k"
    and "response_sent (connections s ! i) + k < length r"
  shows "send_response e (Some i) s =
           (0, s\<lparr>connections := (connections s)
                   [i := (connections s ! i)
                      \<lparr>response_sent := response_sent (connections s ! i) + k\<rparr>],
                 syslog := syslog s @
                   [Sys_send (fd (connections s ! i))
                      (drop (response_sent (connections s ! i)) r) (Sent k)]\<rparr>)"
proof -
  have m: "min k (length r - response_sent (connections s ! i)) = k"
    using assms by simp
  show ?thesis
    using assms
    by (simp add: send_response_def sys_send_def size_sub_le Let_def m)
qed

lemma send_response_complete:
  assumes "response (connections s ! i) = Some r"
    and "response_size (connections s ! i) = length r"
    and "response_sent (connections s ! i) \<le> length r"
    and "send_res e = Sent k"
    and "length r \<le> response_sent (connections s ! i) + k"
  shows "send_response e (Some i) s =
           (let c = connections s ! i;
                s1 = s\<lparr>syslog := syslog s @
                       [Sys_send (fd c) (drop (response_sent c) r)
                          (Sent (length r - response_sent c))]\<rparr>;
                c2 = c\<lparr>response_sent := length r, response := None, response_size := 0\<rparr>
            in if keep_alive c then
                 if epoll_ctl_ok e then
                   (0, s1\<lparr>connections := (connections s)[i := c2\<lparr>buffer_used := 0\<rparr>],
                         epoll := (epoll s)(fd c \<mapsto> EPOLLIN_ET)\<rparr>)
                 else (- 1, s1\<lparr>connections := (connections s)[i := c2\<lparr>buffer_used := 0\<rparr>]\<rparr>)
               else (- 1, s1\<lparr>connections := (connections s)[i := c2]\<rparr>))"
proof -
  have m: "min k (length r - response_sent (connections s ! i)) =
             length r - response_sent (connections s ! i)"
    using assms by simp
  show ?thesis
    using assms
    by (simp add: send_response_def sys_send_def size_sub_le Let_def m epoll_ctl_def)
qed

lemma writable_complete_keep:
  assumes "i < length (connections s)"
    and "response (connections s ! i) = Some r"
    and "response_size (connections s ! i) = length r"
    and "response_sent (connections s ! i) \<le> length r"
    and "send_res e = Sent k"
    and "length r \<le> response_sent (connections s ! i) + k"
    and "keep_alive (connections s ! i)"
    and "epoll_ctl_ok e"
  shows "client_event e {EPOLLOUT} i s =
           s\<lparr>connections := (connections s)
                [i := (connections s ! i)
                   \<lparr>response_sent := length r, response := None, response_size := 0,
                    buffer_used := 0\<rparr>],
              epoll := (epoll s)(fd (connections s ! i) \<mapsto> EPOLLIN_ET),
              syslog := syslog s @
                [Sys_send (fd (connections s ! i))
                   (drop (response_sent (connections s ! i)) r)
                   (Sent (length r - response_sent (connections s ! i)))]\<rparr>"
  using assms
  by (simp add: client_event_def send_response_complete Let_def check_errors_def)

lemma writable_complete_close:
  assumes "i < length (connections s)"
    and "response (connections s ! i) = Some r"
    and "response_size (connections s ! i) = length r"
    and "response_sent (connections s ! i) \<le> length r"
    and "send_res e = Sent k"
    and "length r \<le> response_sent (connections s ! i) + k"
    and "\<not> keep_alive (connections s ! i) \<or> \<not> epoll_ctl_ok e"
    and "0 \<le> fd (connections s ! i)"
  shows "client_event e {EPOLLOUT} i s =
           s\<lparr>connections := (connections s)
                [i := (connections s ! i)
                   \<lparr>fd := - 1, buffer_used := 0, response := None, response_size := 0,
                    response_sent := 0, keep_alive := False\<rparr>],
              connection_count := connection_count s - 1,
              epoll := (epoll s)(fd (connections s ! i) := None),
              syslog := syslog s @
                [Sys_send (fd (connections s ! i))
                   (drop (response_sent (connections s ! i)) r)
                   (Sent (length r - response_sent (connections s ! i))),
                 Sys_close (fd (connections s ! i))]\<rparr>"
  using assms
  by (auto simp add: client_event_def send_response_complete Let_def check_errors_def
      drop_connection_def remove_connection_def sys_close_def)

lemma delivered_append: "delivered d (xs @ ys) = delivered d xs @ delivered d ys"
  by (induction d xs rule: delivered.induct) auto

lemma writable_no_response:
  assumes "i < length (connections s)" and "response (connections s ! i) = None"
  shows "delivered d (syslog (client_event e {EPOLLOUT} i s)) = delivered d (syslog s) \<and>
         i < length (connections (client_event e {EPOLLOUT} i s)) \<and>
         response (connections (client_event e {EPOLLOUT} i s) ! i) = None"
  using assms
  by (simp add: client_event_def send_response_def check_errors_def drop_connection_def
      remove_connection_def sys_close_def Let_def delivered_append)

lemma writable_run_no_response:
  "i < length (connections s) \<Longrightarrow> response (connections s ! i) = None \<Longrightarrow>
   delivered d (syslog (run_events (writable_events es i) s)) = delivered d (syslog s)"
proof (induction es arbitrary: s)
  case Nil
  then show ?case by (simp add: run_events_def writable_events_def)
next
  case (Cons e es)
  have "delivered d (syslog (run_events (writable_events es i) (client_event e {EPOLLOUT} i s)))
        = delivered d (syslog (client_event e {EPOLLOUT} i s))"
    using Cons.IH [of "client_event e {EPOLLOUT} i s"] writable_no_response [OF Cons.prems]
    by simp
  then show ?case
    using writable_no_response [OF Cons.prems, of d e]
    by (simp add: run_events_def writable_events_def)
qed

lemma writable_would_block:
  assumes "i < length (connections s)" and "response (connections s ! i) = Some r"
    and "send_res e = Send_EAGAIN"
  shows "client_event e {EPOLLOUT} i s =
           s\<lparr>syslog := syslog s @
                [Sys_send (fd (connections s ! i))
                   (take (size_sub (response_size (connections s ! i))
                            (response_sent (connections s ! i)))
                      (drop (response_sent (connections s ! i)) r)) Send_EAGAIN]\<rparr>"
  using assms
  by (simp add: client_event_def send_response_def sys_send_def check_errors_def Let_def)

lemma writable_partial:
  assumes "i < length (connections s)" and "response (connections s ! i) = Some r"
    and "response_size (connections s ! i) = length r"
    and "response_sent (connections s ! i) \<le> length r"
    and "send_res e = Sent k"
    and "response_sent (connections s ! i) + k < length r"
  shows "client_event e {EPOLLOUT} i s =
           s\<lparr>connections := (connections s)
                   [i := (connections s ! i)
                      \<lparr>response_sent := response_sent (connections s ! i) + k\<rparr>],
              syslog := syslog s @
                   [Sys_send (fd (connections s ! i))
                      (drop (response_sent (connections s ! i)) r) (Sent k)]\<rparr>"
  using assms
  by (simp add: client_event_def send_response_partial check_errors_def)

lemma writable_run_delivers:
  "i < length (connections s) \<Longrightarrow> response (connections s ! i) = Some r \<Longrightarrow>
   response_size (connections s ! i) = length r \<Longrightarrow>
   response_sent (connections s ! i) = p \<Longrightarrow> p \<le> length r \<Longrightarrow>
   fd (connections s ! i) = d \<Longrightarrow> 0 \<le> d \<Longrightarrow>
   \<forall>e \<in> set es. send_res e \<noteq> Send_error \<Longrightarrow>
   length r \<le> p + sum_list (map sent_count es) \<Longrightarrow>
   delivered d (syslog (run_events (writable_events es i) s)) = delivered d (syslog s) @ drop p r"
proof (induction es arbitrary: s p)
  case Nil
  then show ?case by (simp add: run_events_def writable_events_def)
next
  case (Cons e es)
  let ?s' = "client_event e {EPOLLOUT} i s"
  have run: "run_events (writable_events (e # es) i) s = run_events (writable_events es i) ?s'"
    by (simp add: run_events_def writable_events_def)
  show ?case
  proof (cases "send_res e")
    case (Sent k)
    show ?thesis
    proof (cases "p + k < length r")
      case True
      have s': "?s' = s\<lparr>connections := (connections s)[i := (connections s ! i)\<lparr>response_sent := p + k\<rparr>],
                        syslog := syslog s @ [Sys_send d (drop p r) (Sent k)]\<rparr>"
        using writable_partial [of i s r e k] Cons.prems Sent True by simp
      have "delivered d (syslog (run_events (writable_events es i) ?s'))
            = delivered d (syslog ?s') @ drop (p + k) r"
        using Cons.prems Sent True
        by (intro Cons.IH) (simp_all add: s' sent_count_def)
      moreover have "delivered d (syslog ?s') = delivered d (syslog s) @ take k (drop p r)"
        by (simp add: s' delivered_append)
      moreover have "take k (drop p r) @ drop (p + k) r = drop p r"
        by (metis add.commute append_take_drop_id drop_drop)
      ultimately show ?thesis by (simp add: run)
    next
      case False
      then have full: "length r \<le> p + k" by simp
      have log: "delivered d (syslog ?s') = delivered d (syslog s) @ drop p r \<and>
                 i < length (connections ?s') \<and> response (connections ?s' ! i) = None"
      proof (cases "keep_alive (connections s ! i) \<and> epoll_ctl_ok e")
        case True
        then show ?thesis
          using writable_complete_keep [of i s r e k] Cons.prems Sent full
          by (simp add: delivered_append)
      next
        case False
        then show ?thesis
          using writable_complete_close [of i s r e k] Cons.prems Sent full
          by (simp add: delivered_append)
      qed
      then show ?thesis
        using writable_run_no_response [of i ?s' d es] by (simp add: run)
    qed
  next
    case Send_EAGAIN
    have s': "?s' = s\<lparr>syslog := syslog s @ [Sys_send d (drop p r) Send_EAGAIN]\<rparr>"
      using writable_would_block [of i s r e] Cons.prems Send_EAGAIN
      by (simp add: size_sub_le)
    have "delivered d (syslog (run_events (writable_events es i) ?s'))
          = delivered d (syslog ?s') @ drop p r"
      using Cons.prems Send_EAGAIN
      by (intro Cons.IH) (simp_all add: s' sent_count_def)
    moreover have "delivered d (syslog ?s') = delivered d (syslog s)"
      by (simp add: s' delivered_append)
    ultimately show ?thesis by (simp add: run)
  next
    case Send_error
    with Cons.prems show ?thesis by simp
  qed
qed

lemma find_unused_none: "(\<forall>c \<in> set cs. 0 \<le> fd c) \<Longrightarrow> find_unused cs = None"
  by (induction cs) auto

lemma find_unused_none_iff: "find_unused cs = None \<longleftrightarrow> (\<forall>c \<in> set cs. 0 \<le> fd c)"
  by (induction cs) auto

lemma accumulated_store_fresh:
  "length request < BUFFER_SIZE \<Longrightarrow>
   accumulated (store_received request (unused_connection\<lparr>fd := d\<rparr>)) = request"
  by (simp add: accumulated_def store_received_def unused_connection_def)

lemma build_response_keep_alive:
  "keep_alive (build_response e path c) \<Longrightarrow> keep_alive c"
  by (auto simp add: build_response_def error_response_def Let_def
      split: option.splits if_splits)

lemma build_response_ok_keep_alive:
  "response (build_response e path c) \<notin> {Some response_404, Some response_500} \<Longrightarrow>
   keep_alive (build_response e path c) = keep_alive c"
  by (auto simp add: build_response_def error_response_def Let_def
      split: option.splits if_splits)

lemma parse_request_keep_alive:
  "keep_alive (snd (parse_request c)) \<longleftrightarrow>
   sublist ''Connection: keep-alive'' (c_str (buffer c))"
  using strstr_sublist [of "c_str (buffer c)" "''Connection: keep-alive''"]
  by (simp add: parse_request_def Let_def)

lemma store_fresh_buffer:
  "length request < BUFFER_SIZE \<Longrightarrow>
   buffer (store_received request (unused_connection\<lparr>fd := d\<rparr>)) =
     request @ replicate (BUFFER_SIZE - length request) NUL \<and>
   buffer_used (store_received request (unused_connection\<lparr>fd := d\<rparr>)) = length request"
  by (simp add: store_received_def unused_connection_def)

lemma demo_200:
  "response (process_http_request demo_env
     (store_received (''GET /index.html HTTP/1.1'' @ CRLF @ ''Connection: keep-alive'' @ CRLF @ CRLF)
        (unused_connection\<lparr>fd := 5\<rparr>))) =
   Some (''HTTP/1.1 200 OK'' @ CRLF @ ''Content-Type: text/html'' @ CRLF @
         ''Content-Length: 37'' @ CRLF @ ''Connection: keep-alive'' @ CRLF @ CRLF @
         replicate 37 (CHR ''x''))"
  by (simp add: process_http_request_def store_received_def unused_connection_def
      BUFFER_SIZE_def CRLF_def c_str_def NUL_def strncmp_eq_def parse_request_def sscanf_GET_def
      isspace_def build_response_def WEB_ROOT_def demo_env_def http_header_def
      content_type_of_def digit_char_def error_response_def Let_def)

lemma c_str_within_accumulated:
  assumes "buffer_used c < length (buffer c)" and "buffer c ! buffer_used c = NUL"
  shows "prefix (c_str (buffer c)) (accumulated c)"
proof -
  have "buffer c = take (buffer_used c) (buffer c) @ NUL # drop (Suc (buffer_used c)) (buffer c)"
    using assms id_take_nth_drop [of "buffer_used c" "buffer c"] by simp
  then have "c_str (buffer c) = c_str (take (buffer_used c) (buffer c))"
    unfolding c_str_def by (metis (mono_tags, lifting) takeWhile_stop)
  then show ?thesis
    by (simp add: accumulated_def c_str_prefix)
qed

lemma sublist_of_prefix: "sublist x a \<Longrightarrow> prefix a b \<Longrightarrow> sublist x b"
proof -
  assume "sublist x a" and "prefix a b"
  then obtain ps ss zs where "a = ps @ x @ ss" and "b = a @ zs"
    by (auto simp add: sublist_def prefix_def)
  then have "b = ps @ x @ (ss @ zs)" by simp
  then show "sublist x b" unfolding sublist_def by blast
qed

lemma nth_append3:
  "length xs + length ys \<le> k \<Longrightarrow> (xs @ ys @ zs) ! k = zs ! (k - (length xs + length ys))"
  by (auto simp add: nth_append)

lemma store_received_last:
  assumes "length (buffer c) = BUFFER_SIZE" and "buffer c ! (BUFFER_SIZE - 1) = NUL"
    and "buffer_used c + length data < BUFFER_SIZE"
  shows "length (buffer (store_received data c)) = BUFFER_SIZE \<and>
         buffer (store_received data c) ! (BUFFER_SIZE - 1) = NUL \<and>
         buffer_used (store_received data c) = buffer_used c + length data \<and>
         accumulated (store_received data c) = take (buffer_used c) (buffer c) @ data"
proof -
  let ?u = "buffer_used c"
  let ?k = "BUFFER_SIZE - 1"
  have b: "buffer (store_received data c) =
             take ?u (buffer c) @ data @ drop (?u + length data) (buffer c)"
    by (simp add: store_received_def)
  have lt: "length (take ?u (buffer c)) = ?u"
    using assms by simp
  have len: "length (buffer (store_received data c)) = BUFFER_SIZE"
    using assms by (simp add: b)
  have "buffer (store_received data c) ! ?k =
          drop (?u + length data) (buffer c) ! (?k - (?u + length data))"
    unfolding b using assms lt nth_append3 [of "take ?u (buffer c)" data ?k] by simp
  also have "\<dots> = buffer c ! ?k"
    using assms by simp
  finally have last: "buffer (store_received data c) ! ?k = NUL"
    using assms by simp
  have acc: "accumulated (store_received data c) = take ?u (buffer c) @ data"
    using lt by (simp add: accumulated_def store_received_def)
  show ?thesis
    using len last acc by (simp add: store_received_def)
qed

lemma full_buffer_no_terminator:
  assumes "length (buffer c) = BUFFER_SIZE" and "buffer c ! (BUFFER_SIZE - 1) = NUL"
    and "buffer_used c + length data = BUFFER_SIZE - 1"
    and "\<not> sublist (CRLF @ CRLF) (accumulated (store_received data c))"
  shows "strstr (c_str (buffer (store_received data c))) (CRLF @ CRLF) = None"
proof -
  let ?c = "store_received data c"
  have lt: "buffer_used c + length data < BUFFER_SIZE"
    using assms by (simp add: BUFFER_SIZE_def)
  have st: "length (buffer ?c) = BUFFER_SIZE" "buffer ?c ! (BUFFER_SIZE - 1) = NUL"
    "buffer_used ?c = BUFFER_SIZE - 1"
    using store_received_last [OF assms(1) assms(2) lt] assms(3) by simp_all
  have "prefix (c_str (buffer ?c)) (accumulated ?c)"
    using c_str_within_accumulated [of ?c] st by (simp add: BUFFER_SIZE_def)
  then have "\<not> sublist (CRLF @ CRLF) (c_str (buffer ?c))"
    using assms(4) sublist_of_prefix by blast
  then show ?thesis
    using strstr_sublist [of "c_str (buffer ?c)" "CRLF @ CRLF"] by simp
qed

lemma client_event_readable:
  assumes "EPOLLIN \<in> flags"
    and "response (connections s ! i) = None"
    and "recv_res e = Recv avail"
    and "data = take (BUFFER_SIZE - buffer_used (connections s ! i) - 1) avail"
    and "data \<noteq> []"
    and "conn1 = store_received data (connections s ! i)"
  shows "client_event e flags i s =
           (if strstr (c_str (buffer conn1)) (CRLF @ CRLF) \<noteq> None then
              change_to_write e flags i
                (s\<lparr>connections := (connections s)[i := process_http_request e conn1]\<rparr>)
            else if buffer_used conn1 \<ge> BUFFER_SIZE - 1 then
              change_to_write e flags i
                (s\<lparr>connections := (connections s)[i := error_response response_413 conn1]\<rparr>)
            else check_errors flags i (s\<lparr>connections := (connections s)[i := conn1]\<rparr>))"
  using assms by (simp add: client_event_def Let_def)

lemma readable_too_large:
  assumes "i < length (connections s)"
    and "response (connections s ! i) = None"
    and "length (buffer (connections s ! i)) = BUFFER_SIZE"
    and "buffer (connections s ! i) ! (BUFFER_SIZE - 1) = NUL"
    and "recv_res e = Recv data"
    and "data \<noteq> []"
    and "buffer_used (connections s ! i) + length data = BUFFER_SIZE - 1"
    and "\<not> sublist (CRLF @ CRLF) (accumulated (store_received data (connections s ! i)))"
  shows "client_event e {EPOLLIN} i s =
           change_to_write e {EPOLLIN} i
             (s\<lparr>connections := (connections s)
                  [i := error_response response_413
                          (store_received data (connections s ! i))]\<rparr>)"
proof -
  let ?c = "connections s ! i"
  let ?c1 = "store_received data ?c"
  have tk: "data = take (BUFFER_SIZE - buffer_used ?c - 1) data"
    using assms(7) by simp
  have no: "strstr (c_str (buffer ?c1)) (CRLF @ CRLF) = None"
    using full_buffer_no_terminator [OF assms(3) assms(4) assms(7) assms(8)] .
  have used: "BUFFER_SIZE - 1 \<le> buffer_used ?c1"
    using assms(7) by (simp add: store_received_def)
  show ?thesis
    using client_event_readable [of "{EPOLLIN}" s i e data data ?c1]
      assms(2,5,6) tk no used by simp
qed

lemma readable_while_responding:
  "response (connections s ! i) \<noteq> None \<Longrightarrow> client_event e {EPOLLIN} i s = s"
  by (simp add: client_event_def)

subsection \<open>A run of the event loop, step by step\<close>

lemma find_unused_replicate:
  "0 < n \<Longrightarrow> fd c < 0 \<Longrightarrow> find_unused (replicate n c) = Some 0"
  by (cases n) auto

lemma replicate_update_same: "(replicate n x)[i := x] = replicate n x"
  by (induction n arbitrary: i) (auto split: nat.splits)

lemma list_update_eq_iff: "xs[i := a] = xs[i := b] \<longleftrightarrow> (i < length xs \<longrightarrow> a = b)"
proof (cases "i < length xs")
  case True
  have "a = b" if "xs[i := a] = xs[i := b]"
  proof -
    from that have "xs[i := a] ! i = xs[i := b] ! i"
      by (rule arg_cong)
    with True show ?thesis by simp
  qed
  then show ?thesis using True by auto
next
  case False
  then show ?thesis by (simp add: list_update_beyond)
qed

lemmas eval_defs = list_update_eq_iff client_event_def
      process_http_request_def store_received_def unused_connection_def
      BUFFER_SIZE_def CRLF_def c_str_def NUL_def strncmp_eq_def parse_request_def sscanf_GET_def
      isspace_def build_response_def WEB_ROOT_def demo_env_def http_header_def
      content_type_of_def digit_char_def error_response_def Let_def change_to_write_def
      epoll_ctl_def check_errors_def replicate_update_same send_response_def sys_send_def
      size_sub_def response_404_def accumulated_def

lemma demo_accept: "accept_client demo_env 5 init_server =
   \<lparr>connections = init_connections[0 := unused_connection\<lparr>fd := 5\<rparr>], connection_count = 1,
      epoll = [5 \<mapsto> EPOLLIN_ET], syslog = []\<rparr>"
  by (simp add: init_server_def accept_client_def demo_env_def add_connection_def
      init_connections_def find_unused_replicate unused_connection_def MAX_CONNECTIONS_def epoll_ctl_def)

lemma demo_first_request: "client_event (demo_env\<lparr>recv_res := Recv demo_request\<rparr>) {EPOLLIN} 0
    \<lparr>connections = init_connections[0 := unused_connection\<lparr>fd := 5\<rparr>], connection_count = 1,
      epoll = [5 \<mapsto> EPOLLIN_ET], syslog = []\<rparr> =
    \<lparr>connections = init_connections[0 :=
        \<lparr>fd = 5, buffer = demo_request @ replicate 8140 NUL, buffer_used = 52, response_sent = 0,
         response = Some (http_header ''text/html'' 37 True @ replicate 37 (CHR ''x'')),
         response_size = 125, keep_alive = True\<rparr>], connection_count = 1,
      epoll = [5 \<mapsto> EPOLLOUT_ET], syslog = []\<rparr>"
  by (simp add: eval_defs init_connections_def MAX_CONNECTIONS_def demo_request_def)

lemma demo_first_response: "client_event (demo_env\<lparr>send_res := Sent 4096\<rparr>) {EPOLLOUT} 0
    \<lparr>connections = init_connections[0 :=
        \<lparr>fd = 5, buffer = demo_request @ replicate 8140 NUL, buffer_used = 52, response_sent = 0,
         response = Some (http_header ''text/html'' 37 True @ replicate 37 (CHR ''x'')),
         response_size = 125, keep_alive = True\<rparr>], connection_count = 1,
      epoll = [5 \<mapsto> EPOLLOUT_ET], syslog = []\<rparr> =
    \<lparr>connections = init_connections[0 :=
        \<lparr>fd = 5, buffer = demo_request @ replicate 8140 NUL, buffer_used = 0, response_sent = 125,
         response = None, response_size = 0, keep_alive = True\<rparr>], connection_count = 1,
      epoll = [5 \<mapsto> EPOLLIN_ET],
      syslog = [Sys_send 5 (http_header ''text/html'' 37 True @ replicate 37 (CHR ''x'')) (Sent 125)]\<rparr>"
  by (simp add: eval_defs init_connections_def MAX_CONNECTIONS_def demo_request_def)

lemma demo_partial_request: "client_event (demo_env\<lparr>recv_res := Recv ''GET /index.h''\<rparr>) {EPOLLIN} 0
    \<lparr>connections = init_connections[0 :=
        \<lparr>fd = 5, buffer = demo_request @ replicate 8140 NUL, buffer_used = 0, response_sent = 125,
         response = None, response_size = 0, keep_alive = True\<rparr>], connection_count = 1,
      epoll = [5 \<mapsto> EPOLLIN_ET],
      syslog = [Sys_send 5 (http_header ''text/html'' 37 True @ replicate 37 (CHR ''x'')) (Sent 125)]\<rparr> =
    \<lparr>connections = init_connections[0 :=
        \<lparr>fd = 5, buffer = ''GET /index.h'' @ [NUL] @ drop 13 demo_request @ replicate 8140 NUL,
         buffer_used = 12, response_sent = 0,
         response = Some response_404, response_size = 79, keep_alive = False\<rparr>], connection_count = 1,
      epoll = [5 \<mapsto> EPOLLOUT_ET],
      syslog = [Sys_send 5 (http_header ''text/html'' 37 True @ replicate 37 (CHR ''x'')) (Sent 125)]\<rparr>"
  by (simp add: eval_defs init_connections_def MAX_CONNECTIONS_def demo_request_def)

subsection \<open>The invariants hold in every reachable state\<close>

lemma conn_ok_unused: "conn_ok unused_connection"
  by (simp add: conn_ok_def unused_connection_def BUFFER_SIZE_def)

lemma pool_ok_init: "pool_ok init_server"
  by (simp add: pool_ok_def init_server_def init_connections_def conn_ok_unused list_all_iff)

lemma pool_ok_update:
  "pool_ok s \<Longrightarrow> conn_ok c \<Longrightarrow> pool_ok (s\<lparr>connections := (connections s)[i := c]\<rparr>)"
  using set_update_subset_insert [of "connections s" i c]
  by (auto simp add: pool_ok_def list_all_iff)

lemma conns_ok_update: "list_all conn_ok cs \<Longrightarrow> conn_ok c \<Longrightarrow> list_all conn_ok (cs[i := c])"
  using set_update_subset_insert [of cs i c] by (auto simp add: list_all_iff)

lemma pool_ok_nth: "pool_ok s \<Longrightarrow> i < MAX_CONNECTIONS \<Longrightarrow> conn_ok (connections s ! i)"
  by (simp add: pool_ok_def list_all_length)

lemma conn_ok_error_response: "conn_ok c \<Longrightarrow> conn_ok (error_response r c)"
  by (simp add: conn_ok_def error_response_def)

lemma conn_ok_store_received:
  assumes "conn_ok c" and "data = take (BUFFER_SIZE - buffer_used c - 1) avail"
  shows "conn_ok (store_received data c)"
proof -
  have lt: "buffer_used c + length data < BUFFER_SIZE"
    using assms by (auto simp add: conn_ok_def)
  have "response (store_received data c) = response c"
    "response_size (store_received data c) = response_size c"
    "response_sent (store_received data c) = response_sent c"
    by (simp_all add: store_received_def)
  then show ?thesis
    using store_received_last [of c data] assms(1) lt
    by (simp add: conn_ok_def split: option.splits)
qed

lemma conn_ok_build_response: "conn_ok c \<Longrightarrow> conn_ok (build_response e path c)"
  by (auto simp add: conn_ok_def build_response_def error_response_def Let_def
      split: option.splits)

lemma conn_ok_process: 
  assumes "conn_ok c"
  shows "conn_ok (process_http_request e c)"
proof -
  let ?c = "c\<lparr>buffer := (buffer c)[buffer_used c := NUL]\<rparr>"
  have "buffer ?c ! (BUFFER_SIZE - 1) = NUL"
    using assms by (simp add: conn_ok_def nth_list_update)
  then have ok: "conn_ok ?c"
    using assms by (simp add: conn_ok_def split: option.splits)
  then have "conn_ok (snd (parse_request ?c))"
    by (simp add: parse_request_def Let_def conn_ok_def split: option.splits)
  then show ?thesis
    using ok
    by (auto simp add: process_http_request_def Let_def conn_ok_error_response
        conn_ok_build_response split: prod.splits)
qed

lemma pool_ok_fields [simp]:
  "pool_ok (s\<lparr>connection_count := n\<rparr>) = pool_ok s"
  "pool_ok (s\<lparr>epoll := m\<rparr>) = pool_ok s"
  "pool_ok (s\<lparr>syslog := l\<rparr>) = pool_ok s"
  by (simp_all add: pool_ok_def)

lemma pool_ok_remove: "pool_ok s \<Longrightarrow> i < MAX_CONNECTIONS \<Longrightarrow> pool_ok (remove_connection (Some i) s)"
proof -
  assume s: "pool_ok s" and i: "i < MAX_CONNECTIONS"
  let ?c = "(connections s ! i)\<lparr>fd := - 1, buffer_used := 0, response := None,
              response_size := 0, response_sent := 0, keep_alive := False\<rparr>"
  have "conn_ok ?c"
    using pool_ok_nth [OF s i] by (simp add: conn_ok_def BUFFER_SIZE_def)
  then have "pool_ok (s\<lparr>connections := (connections s)[i := ?c]\<rparr>)"
    using s by (rule pool_ok_update [rotated])
  then show ?thesis
    by (simp add: remove_connection_def sys_close_def Let_def pool_ok_def)
qed

lemma pool_ok_drop: "pool_ok s \<Longrightarrow> i < MAX_CONNECTIONS \<Longrightarrow> pool_ok (drop_connection i s)"
  by (simp add: drop_connection_def Let_def pool_ok_remove)

lemma pool_ok_check_errors:
  "pool_ok s \<Longrightarrow> i < MAX_CONNECTIONS \<Longrightarrow> pool_ok (check_errors flags i s)"
  by (simp add: check_errors_def pool_ok_drop)

lemma pool_ok_change_to_write:
  "pool_ok s \<Longrightarrow> i < MAX_CONNECTIONS \<Longrightarrow> pool_ok (change_to_write e flags i s)"
  by (auto simp add: change_to_write_def epoll_ctl_def pool_ok_drop pool_ok_check_errors)

lemma pool_ok_send_response:
  assumes "pool_ok s" and "i < MAX_CONNECTIONS"
  shows "pool_ok (snd (send_response e (Some i) s))"
proof -
  let ?c = "connections s ! i"
  have c: "conn_ok ?c" using assms by (rule pool_ok_nth)
  show ?thesis
  proof (cases "response ?c")
    case None
    then show ?thesis using assms by (simp add: send_response_def)
  next
    case (Some r)
    have sz: "response_size ?c = length r" "response_sent ?c \<le> length r"
      using c Some by (simp_all add: conn_ok_def)
    show ?thesis
    proof (cases "send_res e")
      case (Sent k)
      show ?thesis
      proof (cases "response_sent ?c + k < length r")
        case True
        have "conn_ok (?c\<lparr>response_sent := response_sent ?c + k\<rparr>)"
          using c Some True by (simp add: conn_ok_def)
        then show ?thesis
          using send_response_partial [OF Some sz Sent True] assms(1)
          by (simp add: pool_ok_def conns_ok_update)
      next
        case False
        then have full: "length r \<le> response_sent ?c + k" by simp
        have "conn_ok (?c\<lparr>response_sent := length r, response := None, response_size := 0\<rparr>)"
          "conn_ok (?c\<lparr>response_sent := length r, response := None, response_size := 0,
                      buffer_used := 0\<rparr>)"
          using c by (simp_all add: conn_ok_def BUFFER_SIZE_def)
        then show ?thesis
          using send_response_complete [OF Some sz Sent full] assms(1)
          by (simp add: Let_def pool_ok_def conns_ok_update)
      qed
    next
      case Send_EAGAIN
      then show ?thesis
        using Some assms(1) by (simp add: send_response_def sys_send_def Let_def)
    next
      case Send_error
      then show ?thesis
        using Some assms(1) by (simp add: send_response_def sys_send_def Let_def)
    qed
  qed
qed

lemma pool_ok_client_event:
  assumes "pool_ok s" and "i < MAX_CONNECTIONS"
  shows "pool_ok (client_event e flags i s)"
proof (cases "EPOLLIN \<in> flags")
  case True
  let ?c = "connections s ! i"
  have c: "conn_ok ?c" using assms by (rule pool_ok_nth)
  show ?thesis
  proof (cases "response ?c")
    case (Some r)
    then show ?thesis using True assms by (simp add: client_event_def)
  next
    case None
    show ?thesis
    proof (cases "recv_res e")
      case (Recv avail)
      let ?data = "take (BUFFER_SIZE - buffer_used ?c - 1) avail"
      let ?c1 = "store_received ?data ?c"
      have c1: "conn_ok ?c1"
        using c by (rule conn_ok_store_received) simp
      show ?thesis
      proof (cases "?data = []")
        case True
        then show ?thesis
          using \<open>EPOLLIN \<in> flags\<close> None Recv assms
          by (simp add: client_event_def pool_ok_drop)
      next
        case False
        have "pool_ok (change_to_write e flags i
                 (s\<lparr>connections := (connections s)[i := process_http_request e ?c1]\<rparr>))"
          "pool_ok (change_to_write e flags i
                 (s\<lparr>connections := (connections s)[i := error_response response_413 ?c1]\<rparr>))"
          "pool_ok (check_errors flags i (s\<lparr>connections := (connections s)[i := ?c1]\<rparr>))"
          using assms c1
          by (simp_all add: pool_ok_change_to_write pool_ok_check_errors pool_ok_update
              conn_ok_process conn_ok_error_response)
        then show ?thesis
          using client_event_readable [OF \<open>EPOLLIN \<in> flags\<close> None Recv refl False refl]
          by simp
      qed
    next
      case Recv_EAGAIN
      then show ?thesis using True None assms by (simp add: client_event_def)
    next
      case Recv_error
      then show ?thesis using True None assms by (simp add: client_event_def pool_ok_drop)
    qed
  qed
next
  case False
  have "pool_ok (snd (send_response e (Some i) s))"
    using assms by (rule pool_ok_send_response)
  then show ?thesis
    using False assms
    by (auto simp add: client_event_def pool_ok_check_errors pool_ok_drop split: prod.splits)
qed

lemma find_unused_bound: "find_unused cs = Some i \<Longrightarrow> i < length cs"
  by (induction cs arbitrary: i) (auto split: if_splits)

lemma pool_ok_accept_client:
  assumes "pool_ok s"
  shows "pool_ok (accept_client e d s)"
proof (cases "find_unused (connections s)")
  case None
  then show ?thesis
    using assms
    by (simp add: accept_client_def add_connection_def sys_close_def sys_send_def Let_def)
next
  case (Some i)
  then have i: "i < MAX_CONNECTIONS"
    using find_unused_bound [of "connections s" i] assms by (simp add: pool_ok_def)
  let ?c = "(connections s ! i)\<lparr>fd := d, buffer_used := 0, response := None,
              response_size := 0, response_sent := 0, keep_alive := False\<rparr>"
  have "conn_ok ?c"
    using pool_ok_nth [OF assms i] by (simp add: conn_ok_def BUFFER_SIZE_def)
  then have ok: "pool_ok (s\<lparr>connections := (connections s)[i := ?c]\<rparr>)"
    using assms by (rule pool_ok_update [rotated])
  show ?thesis
    using Some assms ok i pool_ok_remove [OF ok i]
    by (simp add: accept_client_def add_connection_def sys_close_def epoll_ctl_def)
qed

lemma pool_ok_accept_loop:
  "pool_ok s \<Longrightarrow> pool_ok (foldl (\<lambda>s (e, d). accept_client e d s) s pending)"
  by (induction pending arbitrary: s) (auto simp add: pool_ok_accept_client)

lemma pool_ok_handle_event: "pool_ok s \<Longrightarrow> event_ok ev \<Longrightarrow> pool_ok (handle_event s ev)"
  by (cases ev) (simp_all add: event_ok_def pool_ok_accept_loop pool_ok_client_event)

lemma pool_ok_run_events:
  "pool_ok s \<Longrightarrow> list_all event_ok evs \<Longrightarrow> pool_ok (run_events evs s)"
  unfolding run_events_def
  by (induction evs arbitrary: s) (simp_all add: pool_ok_handle_event)

lemma reachable_pool_ok: "list_all event_ok evs \<Longrightarrow> pool_ok (run_events evs init_server)"
  using pool_ok_init by (rule pool_ok_run_events)

section \<open>The pool\<close>

text \<open>
  Claim C10. Releasing is idempotent and null-safe: releasing the null pointer changes
  nothing; releasing a slot that is already free (descriptor \<open>-1\<close>, no response buffer,
  zero cursors) leaves the whole state as it is, without a second \<^verbatim>\<open>close\<close>; and
  releasing any slot twice gives the state one release gives.
\<close>

theorem remove_connection_idempotent:
  "remove_connection None s = s \<and>
   (i < length (connections s) \<longrightarrow>
      (let c = connections s ! i in
         fd c = - 1 \<and> response c = None \<and> buffer_used c = 0 \<and> response_size c = 0 \<and>
         response_sent c = 0 \<and> \<not> keep_alive c) \<longrightarrow>
      remove_connection (Some i) s = s) \<and>
   (i < length (connections s) \<longrightarrow>
      remove_connection (Some i) (remove_connection (Some i) s) = remove_connection (Some i) s)"
proof -
  have null: "remove_connection None s = s"
    by (simp add: remove_connection_def)
  have free: "remove_connection (Some i) s = s"
    if "i < length (connections s)" and "fd (connections s ! i) = - 1"
      and "response (connections s ! i) = None" and "buffer_used (connections s ! i) = 0"
      and "response_size (connections s ! i) = 0" and "response_sent (connections s ! i) = 0"
      and "\<not> keep_alive (connections s ! i)"
  proof -
    have "(connections s ! i)\<lparr>fd := - 1, buffer_used := 0, response := None,
            response_size := 0, response_sent := 0, keep_alive := False\<rparr> = connections s ! i"
      using that by simp
    then show ?thesis
      using that by (simp add: remove_connection_def Let_def list_update_same_conv)
  qed
  have twice: "remove_connection (Some i) (remove_connection (Some i) s)
               = remove_connection (Some i) s"
    if "i < length (connections s)"
    using that by (simp add: remove_connection_def sys_close_def Let_def)
  show ?thesis
    unfolding Let_def using null free twice by blast
qed

theorem remove_connection_idempotent_witness:
  "remove_connection (Some 0)
     \<lparr>connections = [unused_connection], connection_count = 0, epoll = Map.empty, syslog = []\<rparr>
   = \<lparr>connections = [unused_connection], connection_count = 0, epoll = Map.empty, syslog = []\<rparr>
   \<and> remove_connection (Some 0) (remove_connection (Some 0)
       \<lparr>connections = [unused_connection\<lparr>fd := 7, response := Some ''x''\<rparr>],
        connection_count = 1, epoll = [7 \<mapsto> EPOLLOUT_ET], syslog = []\<rparr>)
     = \<lparr>connections = [unused_connection], connection_count = 1, epoll = Map.empty,
        syslog = [Sys_close 7]\<rparr>"
  using remove_connection_idempotent
    [of "\<lparr>connections = [unused_connection], connection_count = 0, epoll = Map.empty,
          syslog = []\<rparr>" 0]
    remove_connection_idempotent
    [of "\<lparr>connections = [unused_connection\<lparr>fd := 7, response := Some ''x''\<rparr>],
          connection_count = 1, epoll = [7 \<mapsto> EPOLLOUT_ET], syslog = []\<rparr>" 0]
  by (simp add: unused_connection_def remove_connection_def sys_close_def)

section \<open>The write scheduler\<close>

text \<open>
  Claim C2. When the test of line 272 finds the response complete, the bytes sent equal
  the total (the connection holds a response of \<^verbatim>\<open>response_size\<close> bytes of which no more
  than that are sent, and \<^verbatim>\<open>send\<close> took \<open>k\<close> bytes). With \<^verbatim>\<open>keep_alive\<close> set the output
  buffer is dropped, \<^verbatim>\<open>buffer_used\<close> is zero and the descriptor is registered for reading
  again; otherwise (also when that \<^verbatim>\<open>epoll_ctl\<close> fails) \<^verbatim>\<open>main\<close> releases the slot with
  \<^verbatim>\<open>remove_connection\<close>, which closes the descriptor. In both cases the last \<^verbatim>\<open>send\<close>
  offered and delivered exactly the unsent rest of the response.
\<close>

theorem completed_response_reset_or_release:
  assumes "i < length (connections s)"
    and "response (connections s ! i) = Some r"
    and "response_size (connections s ! i) = length r"
    and "response_sent (connections s ! i) \<le> response_size (connections s ! i)"
    and "0 \<le> fd (connections s ! i)"
    and "send_res e = Sent k"
    and "response_size (connections s ! i) \<le>
           response_sent (connections s ! i) +
           min k (size_sub (response_size (connections s ! i))
                    (response_sent (connections s ! i)))"
  shows "(let c = connections s ! i;
              out = Sys_send (fd c) (drop (response_sent c) r)
                      (Sent (response_size c - response_sent c))
          in response_sent c + min k (size_sub (response_size c) (response_sent c))
               = response_size c \<and>
             (keep_alive c \<and> epoll_ctl_ok e \<longrightarrow>
                client_event e {EPOLLOUT} i s =
                  s\<lparr>connections := (connections s)
                       [i := c\<lparr>response_sent := response_size c, response := None,
                               response_size := 0, buffer_used := 0\<rparr>],
                     epoll := (epoll s)(fd c \<mapsto> EPOLLIN_ET),
                     syslog := syslog s @ [out]\<rparr>) \<and>
             (\<not> (keep_alive c \<and> epoll_ctl_ok e) \<longrightarrow>
                client_event e {EPOLLOUT} i s =
                  s\<lparr>connections := (connections s)
                       [i := c\<lparr>fd := - 1, buffer_used := 0, response := None,
                               response_size := 0, response_sent := 0, keep_alive := False\<rparr>],
                     connection_count := connection_count s - 1,
                     epoll := (epoll s)(fd c := None),
                     syslog := syslog s @ [out, Sys_close (fd c)]\<rparr>))"
proof -
  let ?c = "connections s ! i"
  have sub: "size_sub (response_size ?c) (response_sent ?c) = length r - response_sent ?c"
    using assms by (simp add: size_sub_le)
  have full: "length r \<le> response_sent ?c + k"
    using assms sub by simp
  have eq: "response_sent ?c + min k (size_sub (response_size ?c) (response_sent ?c))
            = response_size ?c"
    using assms sub by simp
  have keep: "keep_alive ?c \<and> epoll_ctl_ok e \<Longrightarrow>
      client_event e {EPOLLOUT} i s =
        s\<lparr>connections := (connections s)
             [i := ?c\<lparr>response_sent := response_size ?c, response := None,
                      response_size := 0, buffer_used := 0\<rparr>],
           epoll := (epoll s)(fd ?c \<mapsto> EPOLLIN_ET),
           syslog := syslog s @ [Sys_send (fd ?c) (drop (response_sent ?c) r)
                      (Sent (response_size ?c - response_sent ?c))]\<rparr>"
    using writable_complete_keep [of i s r e k] assms full by simp
  have close: "\<not> (keep_alive ?c \<and> epoll_ctl_ok e) \<Longrightarrow>
      client_event e {EPOLLOUT} i s =
        s\<lparr>connections := (connections s)
             [i := ?c\<lparr>fd := - 1, buffer_used := 0, response := None,
                      response_size := 0, response_sent := 0, keep_alive := False\<rparr>],
           connection_count := connection_count s - 1,
           epoll := (epoll s)(fd ?c := None),
           syslog := syslog s @ [Sys_send (fd ?c) (drop (response_sent ?c) r)
                      (Sent (response_size ?c - response_sent ?c)), Sys_close (fd ?c)]\<rparr>"
    using writable_complete_close [of i s r e k] assms full by simp
  show ?thesis
    unfolding Let_def using eq keep close by blast
qed


theorem completed_response_reset_or_release_witness:
  "client_event (demo_env\<lparr>send_res := Sent 100\<rparr>) {EPOLLOUT} 0 (demo_pending response_404 True)
     = \<lparr>connections =
          [unused_connection\<lparr>fd := 5, response_sent := length response_404,
                             keep_alive := True\<rparr>],
        connection_count = 1, epoll = [5 \<mapsto> EPOLLIN_ET],
        syslog = [Sys_send 5 response_404 (Sent (length response_404))]\<rparr> \<and>
   client_event (demo_env\<lparr>send_res := Sent 100\<rparr>) {EPOLLOUT} 0 (demo_pending response_404 False)
     = \<lparr>connections = [unused_connection],
        connection_count = 0, epoll = Map.empty,
        syslog = [Sys_send 5 response_404 (Sent (length response_404)), Sys_close 5]\<rparr>"
proof -
  have len: "length response_404 = 79"
    by (simp add: response_404_def CRLF_def)
  show ?thesis
    using completed_response_reset_or_release
      [of 0 "demo_pending response_404 True" response_404 "demo_env\<lparr>send_res := Sent 100\<rparr>" 100]
      completed_response_reset_or_release
      [of 0 "demo_pending response_404 False" response_404 "demo_env\<lparr>send_res := Sent 100\<rparr>" 100]
    by (simp add: demo_pending_def demo_env_def unused_connection_def size_sub_def len)
qed

text \<open>
  Claim C5. A connection holds a response \<open>r\<close> of which \<open>p\<close> bytes are sent. A
  \<^verbatim>\<open>send\<close> that takes \<open>k\<close> of the unsent bytes advances \<^verbatim>\<open>response_sent\<close> by exactly \<open>k\<close>
  and was offered the unsent rest; the response is complete (its buffer freed) exactly
  when the bytes sent then equal the total. Over any run of write-readiness events
  without a hard error in which the socket is ready to take at least the unsent bytes,
  would-block answers included, the bytes delivered on the descriptor are the bytes
  delivered before followed by the unsent rest of the buffer: the writes, concatenated
  in order, are the original buffer.
\<close>

theorem partial_writes_deliver_buffer:
  assumes "i < length (connections s)"
    and "response (connections s ! i) = Some r"
    and "response_size (connections s ! i) = length r"
    and "response_sent (connections s ! i) = p"
    and "p \<le> length r"
    and "fd (connections s ! i) = d"
    and "0 \<le> d"
  shows "(send_res e = Sent k \<and> k \<le> length r - p \<longrightarrow>
            (let (ret, s') = send_response e (Some i) s
             in response_sent (connections s' ! i) = p + k \<and>
                syslog s' = syslog s @ [Sys_send d (drop p r) (Sent k)] \<and>
                (response (connections s' ! i) = None \<longleftrightarrow> p + k = length r) \<and>
                (p + k < length r \<longrightarrow> ret = 0 \<and> response (connections s' ! i) = Some r))) \<and>
         ((\<forall>e \<in> set es. send_res e \<noteq> Send_error) \<and>
          length r \<le> p + sum_list (map sent_count es) \<longrightarrow>
            delivered d (syslog (run_events (writable_events es i) s))
              = delivered d (syslog s) @ drop p r)"
proof -
  have one: "let (ret, s') = send_response e (Some i) s
             in response_sent (connections s' ! i) = p + k \<and>
                syslog s' = syslog s @ [Sys_send d (drop p r) (Sent k)] \<and>
                (response (connections s' ! i) = None \<longleftrightarrow> p + k = length r) \<and>
                (p + k < length r \<longrightarrow> ret = 0 \<and> response (connections s' ! i) = Some r)"
    if k: "send_res e = Sent k" "k \<le> length r - p"
  proof (cases "p + k < length r")
    case True
    then show ?thesis
      using send_response_partial [of s i r e k] assms k by simp
  next
    case False
    with k assms have eq: "p + k = length r" by simp
    then have "length r \<le> response_sent (connections s ! i) + k"
      using assms by simp
    then show ?thesis
      using send_response_complete [of s i r e k] assms k eq
      by (auto simp add: Let_def)
  qed
  have many: "delivered d (syslog (run_events (writable_events es i) s))
              = delivered d (syslog s) @ drop p r"
    if "\<forall>e \<in> set es. send_res e \<noteq> Send_error" "length r \<le> p + sum_list (map sent_count es)"
    using writable_run_delivers [of i s r p d es] assms that by simp
  show ?thesis
    using one many by blast
qed

theorem partial_writes_deliver_buffer_witness:
  "delivered 5 (syslog (run_events
      (writable_events [demo_env\<lparr>send_res := Sent 30\<rparr>, demo_env,
                        demo_env\<lparr>send_res := Sent 4096\<rparr>] 0)
      (demo_pending response_404 False))) = response_404 \<and>
   response_sent (connections (snd (send_response (demo_env\<lparr>send_res := Sent 30\<rparr>) (Some 0)
      (demo_pending response_404 False))) ! 0) = 30"
proof -
  have len: "length response_404 = 79"
    by (simp add: response_404_def CRLF_def)
  show ?thesis
    using partial_writes_deliver_buffer
      [of 0 "demo_pending response_404 False" response_404 0 5
          "demo_env\<lparr>send_res := Sent 30\<rparr>" 30
          "[demo_env\<lparr>send_res := Sent 30\<rparr>, demo_env, demo_env\<lparr>send_res := Sent 4096\<rparr>]"]
    by (auto simp add: demo_pending_def demo_env_def unused_connection_def len sent_count_def
        split: prod.splits)
qed

section \<open>Admission control\<close>

text \<open>
  Claim C6. A connection is accepted while every slot of the pool is occupied. Once
  the new descriptor is non-blocking, \<^verbatim>\<open>send\<close> is called on it with the literal
  "503 Service Unavailable" response, whose body is "Server is overloaded", and the
  descriptor is closed; nothing else happens. Whether or not \<^verbatim>\<open>fcntl\<close> succeeded, the
  last system call closes the descriptor and the pool is the same list of connections:
  no slot is taken, no connection is created, and the number of occupied slots is
  unchanged.
\<close>

theorem pool_full_rejects_with_503:
  assumes "\<forall>c \<in> set (connections s). 0 \<le> fd c"
  shows "(nonblock_ok e \<longrightarrow>
            accept_client e d s =
              s\<lparr>epoll := (epoll s)(d := None),
                syslog := syslog s @
                  [Sys_send d response_503
                     (case send_res e of Sent k \<Rightarrow> Sent (min k (length response_503))
                      | r \<Rightarrow> r),
                   Sys_close d]\<rparr>) \<and>
         last (syslog (accept_client e d s)) = Sys_close d \<and>
         connections (accept_client e d s) = connections s \<and>
         occupied (accept_client e d s) = occupied s \<and>
         connection_count (accept_client e d s) = connection_count s \<and>
         take 32 response_503 = ''HTTP/1.1 503 Service Unavailable'' \<and>
         http_body response_503 = Some ''Server is overloaded''"
proof -
  have full: "find_unused (connections s) = None"
    using assms by (simp add: find_unused_none)
  have acc: "accept_client e d s =
           s\<lparr>epoll := (epoll s)(d := None),
             syslog := syslog s @
               [Sys_send d response_503
                  (case send_res e of Sent k \<Rightarrow> Sent (min k (length response_503)) | r \<Rightarrow> r),
                Sys_close d]\<rparr>"
    if "nonblock_ok e"
    using full that
    by (simp add: accept_client_def add_connection_def sys_send_def sys_close_def Let_def)
  have rej: "accept_client e d s = sys_close d s" if "\<not> nonblock_ok e"
    using that by (simp add: accept_client_def)
  have same: "last (syslog (accept_client e d s)) = Sys_close d \<and>
              connections (accept_client e d s) = connections s \<and>
              connection_count (accept_client e d s) = connection_count s"
    using acc rej by (cases "nonblock_ok e") (simp_all add: sys_close_def)
  have body: "http_body response_503 = Some ''Server is overloaded''"
    by (simp add: http_body_def response_503_def CRLF_def)
  have status: "take 32 response_503 = ''HTTP/1.1 503 Service Unavailable''"
    by (simp add: response_503_def)
  show ?thesis
    using acc same body status by (simp add: occupied_def)
qed

theorem pool_full_rejects_with_503_witness:
  "accept_client (demo_env\<lparr>send_res := Sent 4096\<rparr>) 9 (demo_pending response_404 False) =
     (demo_pending response_404 False)
       \<lparr>syslog := [Sys_send 9 response_503 (Sent 95), Sys_close 9]\<rparr> \<and>
   occupied (demo_pending response_404 False) = 1"
proof -
  have len: "length response_503 = 95"
    by (simp add: response_503_def CRLF_def)
  show ?thesis
    using pool_full_rejects_with_503
      [of "demo_pending response_404 False" "demo_env\<lparr>send_res := Sent 4096\<rparr>" 9]
    by (simp add: demo_pending_def demo_env_def unused_connection_def len occupied_def)
qed

section \<open>The request parser\<close>

text \<open>
  Claim C4. When the first white-space delimited word of the accumulated request is not
  \<^verbatim>\<open>GET\<close>, \<^verbatim>\<open>process_http_request\<close> stores the "501 Not Implemented" response, whose body
  is "Only GET requests supported", and clears \<^verbatim>\<open>keep_alive\<close>, whatever else the request
  holds (a keep-alive marker included). Once that response has been sent in full, the
  event loop closes the descriptor and frees the slot.
\<close>

theorem non_get_method_rejected:
  assumes "method_token (accumulated conn) \<noteq> ''GET''"
  shows "process_http_request e conn =
           error_response response_501
             (conn\<lparr>buffer := (buffer conn)[buffer_used conn := NUL]\<rparr>) \<and>
         response (process_http_request e conn) = Some response_501 \<and>
         \<not> keep_alive (process_http_request e conn) \<and>
         take 28 response_501 = ''HTTP/1.1 501 Not Implemented'' \<and>
         http_body response_501 = Some ''Only GET requests supported'' \<and>
         (\<forall>s i e' k. i < length (connections s) \<and>
             connections s ! i = process_http_request e conn \<and> 0 \<le> fd conn \<and>
             send_res e' = Sent k \<and> length response_501 \<le> k \<longrightarrow>
             fd (connections (client_event e' {EPOLLOUT} i s) ! i) = - 1 \<and>
             syslog (client_event e' {EPOLLOUT} i s) =
               syslog s @ [Sys_send (fd conn) response_501 (Sent (length response_501)),
                           Sys_close (fd conn)])"
proof -
  let ?c = "error_response response_501
              (conn\<lparr>buffer := (buffer conn)[buffer_used conn := NUL]\<rparr>)"
  have p: "process_http_request e conn = ?c"
    using assms by (rule process_non_get)
  have body: "http_body response_501 = Some ''Only GET requests supported''"
    by (simp add: http_body_def response_501_def CRLF_def)
  have status: "take 28 response_501 = ''HTTP/1.1 501 Not Implemented''"
    by (simp add: response_501_def)
  have closes: "fd (connections (client_event e' {EPOLLOUT} i s) ! i) = - 1 \<and>
             syslog (client_event e' {EPOLLOUT} i s) =
               syslog s @ [Sys_send (fd conn) response_501 (Sent (length response_501)),
                           Sys_close (fd conn)]"
    if "i < length (connections s)" "connections s ! i = process_http_request e conn"
      "0 \<le> fd conn" "send_res e' = Sent k" "length response_501 \<le> k" for s i e' k
    using writable_complete_close [of i s response_501 e' k] that
    by (simp add: p error_response_def)
  show ?thesis
    using p body status closes by (simp add: error_response_def)
qed

theorem non_get_method_rejected_witness:
  "response (process_http_request demo_env
     (store_received (''POST / HTTP/1.1'' @ CRLF @ ''Connection: keep-alive'' @ CRLF @ CRLF)
        (unused_connection\<lparr>fd := 5\<rparr>))) = Some response_501 \<and>
   \<not> keep_alive (process_http_request demo_env
     (store_received (''POST / HTTP/1.1'' @ CRLF @ ''Connection: keep-alive'' @ CRLF @ CRLF)
        (unused_connection\<lparr>fd := 5\<rparr>))) \<and>
   method_token (''POST / HTTP/1.1'' @ CRLF @ ''Connection: keep-alive'' @ CRLF @ CRLF) = ''POST''"
proof -
  let ?req = "''POST / HTTP/1.1'' @ CRLF @ ''Connection: keep-alive'' @ CRLF @ CRLF"
  let ?c = "store_received ?req (unused_connection\<lparr>fd := 5\<rparr>)"
  have m: "method_token ?req = ''POST''"
    by (simp add: CRLF_def method_token_def isspace_def)
  have "accumulated ?c = ?req"
    by (rule accumulated_store_fresh) (simp add: CRLF_def BUFFER_SIZE_def)
  then have h: "method_token (accumulated ?c) \<noteq> ''GET''"
    using m by simp
  show ?thesis
    using non_get_method_rejected [OF h, of demo_env] m by blast
qed

text \<open>
  Claim C7, amended. For a request that starts with \<^verbatim>\<open>GET \<close>, the assignment of line 144
  sets \<^verbatim>\<open>keep_alive\<close> exactly when the request text, which is the accumulated bytes before
  their first NUL (what \<^verbatim>\<open>strstr\<close> reads of the array), contains
  \<^verbatim>\<open>Connection: keep-alive\<close>. Without the marker in that text the connection is left to
  close after the response, whatever the response is; and unless the response is one of
  the error responses (404 or 500, which clear the flag), the flag the function leaves
  is the one line 144 has set. When no NUL was received the request text is all the
  accumulated bytes.
\<close>

theorem keep_alive_iff_marker_in_text:
  assumes "prefix ''GET '' (c_str (accumulated conn))"
  shows "(let parsed = snd (parse_request
                              (conn\<lparr>buffer := (buffer conn)[buffer_used conn := NUL]\<rparr>));
              final = process_http_request e conn
          in (keep_alive parsed \<longleftrightarrow>
                sublist ''Connection: keep-alive'' (c_str (accumulated conn))) \<and>
             (\<not> sublist ''Connection: keep-alive'' (c_str (accumulated conn)) \<longrightarrow>
                \<not> keep_alive final) \<and>
             (response final \<notin> {Some response_404, Some response_500} \<longrightarrow>
                keep_alive final = keep_alive parsed) \<and>
             (NUL \<notin> set (accumulated conn) \<longrightarrow> c_str (accumulated conn) = accumulated conn))"
proof -
  let ?c = "conn\<lparr>buffer := (buffer conn)[buffer_used conn := NUL]\<rparr>"
  have cstr: "c_str (buffer ?c) = c_str (accumulated conn)"
    by (simp add: c_str_terminated_take accumulated_def)
  have parsed: "keep_alive (snd (parse_request ?c)) \<longleftrightarrow>
                sublist ''Connection: keep-alive'' (c_str (accumulated conn))"
    using parse_request_keep_alive [of ?c] cstr by simp
  have final: "process_http_request e conn =
                 build_response e (fst (parse_request ?c)) (snd (parse_request ?c))"
    using assms cstr
    by (simp add: process_http_request_def Let_def strncmp_eq_GET split: prod.splits)
  have absent: "\<not> keep_alive (process_http_request e conn)"
    if "\<not> sublist ''Connection: keep-alive'' (c_str (accumulated conn))"
    using that parsed final build_response_keep_alive by metis
  have ok: "keep_alive (process_http_request e conn) = keep_alive (snd (parse_request ?c))"
    if "response (process_http_request e conn) \<notin> {Some response_404, Some response_500}"
    using that final build_response_ok_keep_alive by metis
  have plain: "c_str (accumulated conn) = accumulated conn" if "NUL \<notin> set (accumulated conn)"
    using that by (rule c_str_text)
  show ?thesis
    unfolding Let_def using parsed absent ok plain by blast
qed

theorem keep_alive_iff_marker_in_text_witness:
  "keep_alive (process_http_request demo_env
     (store_received (''GET /index.html HTTP/1.1'' @ CRLF @ ''Connection: keep-alive'' @ CRLF @ CRLF)
        (unused_connection\<lparr>fd := 5\<rparr>))) \<and>
   \<not> keep_alive (process_http_request demo_env
     (store_received (''GET /index.html HTTP/1.1'' @ CRLF @ CRLF)
        (unused_connection\<lparr>fd := 5\<rparr>)))"
proof -
  let ?req = "''GET /index.html HTTP/1.1'' @ CRLF @ ''Connection: keep-alive'' @ CRLF @ CRLF"
  let ?c = "store_received ?req (unused_connection\<lparr>fd := 5\<rparr>)"
  let ?req' = "''GET /index.html HTTP/1.1'' @ CRLF @ CRLF"
  let ?c' = "store_received ?req' (unused_connection\<lparr>fd := 5\<rparr>)"
  have acc: "accumulated ?c = ?req"
    by (rule accumulated_store_fresh) (simp add: CRLF_def BUFFER_SIZE_def)
  have acc': "accumulated ?c' = ?req'"
    by (rule accumulated_store_fresh) (simp add: CRLF_def BUFFER_SIZE_def)
  have nn: "NUL \<notin> set ?req" "NUL \<notin> set ?req'"
    by (simp_all add: CRLF_def NUL_def)
  have cs: "c_str (accumulated ?c) = ?req" "c_str (accumulated ?c') = ?req'"
    unfolding acc acc' using nn c_str_text by blast+
  have get: "prefix ''GET '' (c_str (accumulated ?c))" "prefix ''GET '' (c_str (accumulated ?c'))"
    unfolding cs by simp_all
  have "strstr ?req ''Connection: keep-alive'' \<noteq> None"
    by (simp add: CRLF_def)
  then have marker: "sublist ''Connection: keep-alive'' (c_str (accumulated ?c))"
    using strstr_sublist [of ?req "''Connection: keep-alive''"] unfolding cs by blast
  have "\<not> strstr ?req' ''Connection: keep-alive'' \<noteq> None"
    by (simp add: CRLF_def)
  then have absent: "\<not> sublist ''Connection: keep-alive'' (c_str (accumulated ?c'))"
    using strstr_sublist [of ?req' "''Connection: keep-alive''"] unfolding cs by blast
  have ok: "response (process_http_request demo_env ?c)
              \<notin> {Some response_404, Some response_500}"
    unfolding demo_200 by (simp add: response_404_def response_500_def CRLF_def)
  show ?thesis
    using keep_alive_iff_marker_in_text [OF get(1), of demo_env]
      keep_alive_iff_marker_in_text [OF get(2), of demo_env] marker absent ok
    unfolding Let_def by blast
qed

text \<open>
  Claim C7 as first stated, with the marker looked for in all the accumulated bytes, does
  not hold: a fresh connection receives a \<^verbatim>\<open>GET\<close> request for the existing
  \<^verbatim>\<open>/index.html\<close> in which a NUL byte comes before the marker. The accumulated bytes
  contain the marker, yet the request is answered with 200 and \<^verbatim>\<open>Connection: close\<close>,
  and \<^verbatim>\<open>keep_alive\<close> is left clear.
\<close>

theorem keep_alive_marker_behind_nul:
  "prefix ''GET '' (accumulated (connections
      (client_event (demo_env\<lparr>recv_res := Recv demo_nul_request\<rparr>) {EPOLLIN} 0 demo_idle) ! 0)) \<and>
   sublist ''Connection: keep-alive'' (accumulated (connections
      (client_event (demo_env\<lparr>recv_res := Recv demo_nul_request\<rparr>) {EPOLLIN} 0 demo_idle) ! 0)) \<and>
   \<not> keep_alive (connections
      (client_event (demo_env\<lparr>recv_res := Recv demo_nul_request\<rparr>) {EPOLLIN} 0 demo_idle) ! 0) \<and>
   response (connections
      (client_event (demo_env\<lparr>recv_res := Recv demo_nul_request\<rparr>) {EPOLLIN} 0 demo_idle) ! 0) =
     Some (''HTTP/1.1 200 OK'' @ CRLF @ ''Content-Type: text/html'' @ CRLF @
           ''Content-Length: 37'' @ CRLF @ ''Connection: close'' @ CRLF @ CRLF @
           replicate 37 (CHR ''x''))"
proof -
  let ?s = "client_event (demo_env\<lparr>recv_res := Recv demo_nul_request\<rparr>) {EPOLLIN} 0 demo_idle"
  have s: "?s =
    \<lparr>connections =
        [\<lparr>fd = 5, buffer = demo_nul_request @ replicate 8141 NUL, buffer_used = 51,
          response_sent = 0,
          response = Some (http_header ''text/html'' 37 False @ replicate 37 (CHR ''x'')),
          response_size = 120, keep_alive = False\<rparr>],
      connection_count = 1, epoll = [5 \<mapsto> EPOLLOUT_ET], syslog = []\<rparr>"
    by (simp add: eval_defs demo_idle_def demo_nul_request_def)
  have acc: "accumulated (connections ?s ! 0) = demo_nul_request"
    unfolding s by (simp add: accumulated_def demo_nul_request_def CRLF_def)
  have "strstr demo_nul_request ''Connection: keep-alive'' \<noteq> None"
    by (simp add: demo_nul_request_def CRLF_def NUL_def)
  then have marker: "sublist ''Connection: keep-alive'' demo_nul_request"
    using strstr_sublist [of demo_nul_request "''Connection: keep-alive''"] by blast
  have get: "prefix ''GET '' demo_nul_request"
    by (simp add: demo_nul_request_def)
  have rest: "\<not> keep_alive (connections ?s ! 0)"
    "response (connections ?s ! 0) =
       Some (''HTTP/1.1 200 OK'' @ CRLF @ ''Content-Type: text/html'' @ CRLF @
           ''Content-Length: 37'' @ CRLF @ ''Connection: close'' @ CRLF @ CRLF @
           replicate 37 (CHR ''x''))"
    unfolding s by (simp_all add: http_header_def digit_char_def)
  show ?thesis
    unfolding acc using marker get rest by simp
qed

text \<open>
  Claim C3. A connection without a pending response receives bytes that bring
  \<^verbatim>\<open>buffer_used\<close> to \<^verbatim>\<open>BUFFER_SIZE - 1\<close>, and the accumulated bytes do not contain CR LF CR
  LF (the array has \<^verbatim>\<open>BUFFER_SIZE\<close> bytes and its last byte, which \<^verbatim>\<open>recv\<close> never writes,
  is NUL, as in every reachable state). Then the event stores the
  "413 Request Entity Too Large" response, clears \<^verbatim>\<open>keep_alive\<close> and registers the
  descriptor for writing. No later read event changes the state, so there is exactly one
  such response, and the write event that sends it in full closes the descriptor and
  frees the slot. Should that \<^verbatim>\<open>epoll_ctl\<close> fail, the connection is closed at once.
\<close>

theorem oversized_request_rejected:
  assumes "i < length (connections s)"
    and "response (connections s ! i) = None"
    and "0 \<le> fd (connections s ! i)"
    and "length (buffer (connections s ! i)) = BUFFER_SIZE"
    and "buffer (connections s ! i) ! (BUFFER_SIZE - 1) = NUL"
    and "recv_res e = Recv data"
    and "data \<noteq> []"
    and "buffer_used (connections s ! i) + length data = BUFFER_SIZE - 1"
    and "\<not> sublist (CRLF @ CRLF) (accumulated (store_received data (connections s ! i)))"
  shows "(let c = connections s ! i; s' = client_event e {EPOLLIN} i s
          in (epoll_ctl_ok e \<longrightarrow>
                s' = s\<lparr>connections := (connections s)
                          [i := error_response response_413 (store_received data c)],
                        epoll := (epoll s)(fd c \<mapsto> EPOLLOUT_ET)\<rparr> \<and>
                response (connections s' ! i) = Some response_413 \<and>
                \<not> keep_alive (connections s' ! i) \<and>
                (\<forall>e'. client_event e' {EPOLLIN} i s' = s') \<and>
                (\<forall>e' k. send_res e' = Sent k \<and> length response_413 \<le> k \<longrightarrow>
                   fd (connections (client_event e' {EPOLLOUT} i s') ! i) = - 1 \<and>
                   syslog (client_event e' {EPOLLOUT} i s') =
                     syslog s @ [Sys_send (fd c) response_413 (Sent (length response_413)),
                                 Sys_close (fd c)])) \<and>
             (\<not> epoll_ctl_ok e \<longrightarrow>
                fd (connections s' ! i) = - 1 \<and> response (connections s' ! i) = None \<and>
                syslog s' = syslog s @ [Sys_close (fd c)]) \<and>
             take 37 response_413 = ''HTTP/1.1 413 Request Entity Too Large'')"
proof -
  let ?c = "connections s ! i"
  let ?s1 = "s\<lparr>connections := (connections s)
                  [i := error_response response_413 (store_received data ?c)]\<rparr>"
  let ?s' = "?s1\<lparr>epoll := (epoll s)(fd ?c \<mapsto> EPOLLOUT_ET)\<rparr>"
  have ev: "client_event e {EPOLLIN} i s = change_to_write e {EPOLLIN} i ?s1"
    using readable_too_large [OF assms(1,2,4,5,6,7,8,9)] .
  have c1: "connections ?s1 ! i = error_response response_413 (store_received data ?c)"
    using assms(1) by simp
  have fd1: "fd (connections ?s1 ! i) = fd ?c"
    unfolding c1 by (simp add: error_response_def store_received_def)
  have ok: "client_event e {EPOLLIN} i s = ?s'" if "epoll_ctl_ok e"
    unfolding ev using that fd1
    by (simp add: change_to_write_def epoll_ctl_def check_errors_def)
  have c': "connections ?s' ! i = error_response response_413 (store_received data ?c)"
    using assms(1) by simp
  have resp: "response (connections ?s' ! i) = Some response_413"
    "\<not> keep_alive (connections ?s' ! i)" "fd (connections ?s' ! i) = fd ?c"
    "response_size (connections ?s' ! i) = length response_413"
    "response_sent (connections ?s' ! i) = 0"
    unfolding c' by (simp_all add: error_response_def store_received_def)
  have status: "take 37 response_413 = ''HTTP/1.1 413 Request Entity Too Large''"
    by (simp add: response_413_def)
  have once: "client_event e' {EPOLLIN} i ?s' = ?s'" for e'
    using readable_while_responding [of ?s' i e'] resp(1) by simp
  have closes: "fd (connections (client_event e' {EPOLLOUT} i ?s') ! i) = - 1 \<and>
                syslog (client_event e' {EPOLLOUT} i ?s') =
                  syslog s @ [Sys_send (fd ?c) response_413 (Sent (length response_413)),
                              Sys_close (fd ?c)]"
    if "send_res e' = Sent k" "length response_413 \<le> k" for e' k
  proof -
    have "i < length (connections ?s')" using assms(1) by simp
    then show ?thesis
      using writable_complete_close [of i ?s' response_413 e' k] resp that assms(3)
      by simp
  qed
  have failed: "fd (connections (client_event e {EPOLLIN} i s) ! i) = - 1 \<and>
                response (connections (client_event e {EPOLLIN} i s) ! i) = None \<and>
                syslog (client_event e {EPOLLIN} i s) = syslog s @ [Sys_close (fd ?c)]"
    if "\<not> epoll_ctl_ok e"
    unfolding ev using that fd1 assms(1,3)
    by (simp add: change_to_write_def epoll_ctl_def drop_connection_def remove_connection_def
        sys_close_def Let_def)
  have good: "client_event e {EPOLLIN} i s = ?s' \<and>
      response (connections (client_event e {EPOLLIN} i s) ! i) = Some response_413 \<and>
      \<not> keep_alive (connections (client_event e {EPOLLIN} i s) ! i) \<and>
      (\<forall>e'. client_event e' {EPOLLIN} i (client_event e {EPOLLIN} i s)
             = client_event e {EPOLLIN} i s) \<and>
      (\<forall>e' k. send_res e' = Sent k \<and> length response_413 \<le> k \<longrightarrow>
         fd (connections (client_event e' {EPOLLOUT} i (client_event e {EPOLLIN} i s)) ! i) = - 1 \<and>
         syslog (client_event e' {EPOLLOUT} i (client_event e {EPOLLIN} i s)) =
           syslog s @ [Sys_send (fd ?c) response_413 (Sent (length response_413)),
                       Sys_close (fd ?c)])"
    if "epoll_ctl_ok e"
    unfolding ok [OF that] using resp(1,2) once closes by blast
  show ?thesis
    unfolding Let_def using good failed status by blast
qed

theorem oversized_request_rejected_witness:
  "response (connections
     (client_event (demo_env\<lparr>recv_res := Recv (replicate 8191 (CHR ''A''))\<rparr>) {EPOLLIN} 0
        demo_idle) ! 0) = Some response_413 \<and>
   accumulated (connections
     (client_event (demo_env\<lparr>recv_res := Recv (replicate 8191 (CHR ''A''))\<rparr>) {EPOLLIN} 0
        demo_idle) ! 0) = replicate 8191 (CHR ''A'')"
proof -
  let ?e = "demo_env\<lparr>recv_res := Recv (replicate 8191 (CHR ''A''))\<rparr>"
  let ?data = "replicate 8191 (CHR ''A'')"
  have acc: "accumulated (store_received ?data (connections demo_idle ! 0)) = ?data"
    by (simp add: demo_idle_def accumulated_def store_received_def unused_connection_def)
  have "\<not> set (CRLF @ CRLF) \<subseteq> set ?data"
    by (simp add: CRLF_def)
  then have no: "\<not> sublist (CRLF @ CRLF)
                     (accumulated (store_received ?data (connections demo_idle ! 0)))"
    unfolding acc using set_mono_sublist by blast
  have ev: "client_event ?e {EPOLLIN} 0 demo_idle =
          demo_idle\<lparr>connections := (connections demo_idle)
                 [0 := error_response response_413
                         (store_received ?data (connections demo_idle ! 0))],
               epoll := (epoll demo_idle)(fd (connections demo_idle ! 0) \<mapsto> EPOLLOUT_ET)\<rparr>"
    using oversized_request_rejected [of 0 demo_idle ?e ?data, OF _ _ _ _ _ _ _ _ no]
    unfolding Let_def
    by (simp add: demo_idle_def demo_env_def unused_connection_def BUFFER_SIZE_def)
  show ?thesis
    unfolding ev using acc
    by (simp add: demo_idle_def error_response_def accumulated_def)
qed

text \<open>
  Claim C8 says a request is declared complete exactly when CR LF CR LF occurs among the
  accumulated bytes, never because of stale bytes behind them. The test of line 501
  runs \<^verbatim>\<open>strstr\<close> on the whole array, which is not terminated at \<^verbatim>\<open>buffer_used\<close> (only
  \<^verbatim>\<open>process_http_request\<close> writes the NUL, afterwards), and neither the keep-alive reset
  nor \<^verbatim>\<open>add_connection\<close> clears the array. In the run below the second request has
  only its first twelve bytes, \<^verbatim>\<open>GET /index.h\<close>, without any CR LF CR LF; the terminator
  of the previous request is still in the array, so the request is processed at once
  and answered with 404.
\<close>

theorem stale_bytes_declare_parsed:
  "(let s = run_events demo_events init_server; c = connections s ! 0
    in accumulated c = ''GET /index.h'' \<and>
       \<not> sublist (CRLF @ CRLF) (accumulated c) \<and>
       response c = Some response_404 \<and>
       epoll s 5 = Some EPOLLOUT_ET)"
proof -
  let ?s = "run_events demo_events init_server"
  have s: "?s = \<lparr>connections = init_connections[0 :=
        \<lparr>fd = 5, buffer = ''GET /index.h'' @ [NUL] @ drop 13 demo_request @ replicate 8140 NUL,
         buffer_used = 12, response_sent = 0,
         response = Some response_404, response_size = 79, keep_alive = False\<rparr>], connection_count = 1,
      epoll = [5 \<mapsto> EPOLLOUT_ET],
      syslog = [Sys_send 5 (http_header ''text/html'' 37 True @ replicate 37 (CHR ''x'')) (Sent 125)]\<rparr>"
    by (simp add: run_events_def demo_events_def demo_accept demo_first_request demo_first_response demo_partial_request)
  have acc: "accumulated (connections ?s ! 0) = ''GET /index.h''"
    unfolding s by (simp add: accumulated_def init_connections_def MAX_CONNECTIONS_def)
  have "strstr ''GET /index.h'' (CRLF @ CRLF) = None"
    by (simp add: CRLF_def)
  then have no: "\<not> sublist (CRLF @ CRLF) ''GET /index.h''"
    using strstr_sublist [of "''GET /index.h''" "CRLF @ CRLF"] by simp
  have rest: "response (connections ?s ! 0) = Some response_404" "epoll ?s 5 = Some EPOLLOUT_ET"
    unfolding s by (simp_all add: init_connections_def MAX_CONNECTIONS_def)
  show ?thesis
    unfolding Let_def acc using no rest by simp
qed

section \<open>The response builder\<close>

text \<open>
  Claim C1 says every error response declares the exact length of its body. The request
  \<^verbatim>\<open>POST / HTTP/1.1\<close> gets the 501 response, which declares 28 bytes and carries 27;
  the 413 response declares 24 and carries 20, the 503 response declares 21 and carries
  20. Only the 404 and 500 responses declare what they carry.
\<close>

theorem error_content_length_mismatch:
  "response (process_http_request demo_env
      (store_received (''POST / HTTP/1.1'' @ CRLF @ CRLF) (unused_connection\<lparr>fd := 5\<rparr>)))
     = Some response_501 \<and>
   declared_length response_501 = Some 28 \<and>
   map_option length (http_body response_501) = Some 27 \<and>
   declared_length response_413 = Some 24 \<and>
   map_option length (http_body response_413) = Some 20 \<and>
   declared_length response_503 = Some 21 \<and>
   map_option length (http_body response_503) = Some 20 \<and>
   declared_length response_404 = Some 14 \<and>
   map_option length (http_body response_404) = Some 14 \<and>
   declared_length response_500 = Some 21 \<and>
   map_option length (http_body response_500) = Some 21"
proof -
  have post: "response (process_http_request demo_env
      (store_received (''POST / HTTP/1.1'' @ CRLF @ CRLF) (unused_connection\<lparr>fd := 5\<rparr>)))
     = Some response_501"
    by (simp add: process_http_request_def store_received_def unused_connection_def
        BUFFER_SIZE_def CRLF_def c_str_def NUL_def strncmp_eq_def error_response_def)
  have d: "declared_length response_501 = Some 28" "declared_length response_413 = Some 24"
    "declared_length response_503 = Some 21" "declared_length response_404 = Some 14"
    "declared_length response_500 = Some 21"
    by (simp_all add: declared_length_def isdigit_def digit_value_def CRLF_def
        response_501_def response_413_def response_503_def response_404_def response_500_def)
  have b: "map_option length (http_body response_501) = Some 27"
    "map_option length (http_body response_413) = Some 20"
    "map_option length (http_body response_503) = Some 20"
    "map_option length (http_body response_404) = Some 14"
    "map_option length (http_body response_500) = Some 21"
    by (simp_all add: http_body_def CRLF_def
        response_501_def response_413_def response_503_def response_404_def response_500_def)
  show ?thesis
    using post d b by simp
qed

text \<open>
  Claim C9 says the content type is chosen by the suffix of the path. The source tests
  with \<^verbatim>\<open>strstr\<close> whether the path contains \<^verbatim>\<open>.html\<close>, \<^verbatim>\<open>.htm\<close>, \<^verbatim>\<open>.css\<close>, ... anywhere, in
  that order: the file \<^verbatim>\<open>/docs.html/logo.png\<close>, whose suffix the table maps to
  \<^verbatim>\<open>image/png\<close>, is served as \<^verbatim>\<open>text/html\<close>.
\<close>

theorem content_type_by_substring:
  "content_type_of ''/docs.html/logo.png'' = ''text/html'' \<and>
   suffix_table ''/docs.html/logo.png'' = ''image/png'' \<and>
   response (process_http_request
      (demo_env\<lparr>open_file := (\<lambda>p. if p = ''./www/docs.html/logo.png''
                                then Some \<lparr>st_size = 3, contents = Some ''PNG''\<rparr> else None)\<rparr>)
      (store_received (''GET /docs.html/logo.png HTTP/1.1'' @ CRLF @ CRLF)
         (unused_connection\<lparr>fd := 5\<rparr>)))
     = Some (''HTTP/1.1 200 OK'' @ CRLF @ ''Content-Type: text/html'' @ CRLF @
             ''Content-Length: 3'' @ CRLF @ ''Connection: close'' @ CRLF @ CRLF @ ''PNG'')"
proof -
  have c: "content_type_of ''/docs.html/logo.png'' = ''text/html''"
    by (simp add: content_type_of_def)
  have t: "suffix_table ''/docs.html/logo.png'' = ''image/png''"
    by (simp add: suffix_table_def path_suffix_def)
  have r: "response (process_http_request
      (demo_env\<lparr>open_file := (\<lambda>p. if p = ''./www/docs.html/logo.png''
                                then Some \<lparr>st_size = 3, contents = Some ''PNG''\<rparr> else None)\<rparr>)
      (store_received (''GET /docs.html/logo.png HTTP/1.1'' @ CRLF @ CRLF)
         (unused_connection\<lparr>fd := 5\<rparr>)))
     = Some (''HTTP/1.1 200 OK'' @ CRLF @ ''Content-Type: text/html'' @ CRLF @
             ''Content-Length: 3'' @ CRLF @ ''Connection: close'' @ CRLF @ CRLF @ ''PNG'')"
    by (simp add: process_http_request_def store_received_def unused_connection_def
      BUFFER_SIZE_def CRLF_def c_str_def NUL_def strncmp_eq_def parse_request_def sscanf_GET_def
      isspace_def build_response_def WEB_ROOT_def demo_env_def http_header_def
      content_type_of_def digit_char_def error_response_def Let_def replicate_update_same)
  show ?thesis
    using c t r by simp
qed

theorem content_type_by_substring_witness:
  "content_type_of ''/docs.html/logo.png'' \<noteq> suffix_table ''/docs.html/logo.png''"
  using content_type_by_substring by simp

end
